theory Spec2Isabelle
  imports Main "HOL-Library.AList" "HOL-Library.Sublist"
begin

section \<open>Python values and the object store\<close>

text \<open>
  The template engine (\<^verbatim>\<open>template_engine.py\<close>) and the content blocks
  (\<^verbatim>\<open>content_blocks.py\<close>) work on untyped Python data: \<^verbatim>\<open>Dict[str, Any]\<close>.
  Mappings are mutable objects and the engine both copies one (\<^verbatim>\<open>data.copy()\<close>) and
  changes one in place (\<^verbatim>\<open>result.pop("metadata", None)\<close>), so mappings live in a store
  and values refer to them by address. Lists, strings and \<^verbatim>\<open>ContentBlock\<close> instances are
  never changed in place by this code and are values.

  A text is modelled by the bytes of its UTF-8 encoding: concatenation, comparison, the
  substring, prefix and suffix tests and the split on a comma act on the encoding as they
  act on the text. What depends on the Unicode tables or on the boundaries between code
  points (white space, case mappings, the characters of a text) is a parameter of the model.

  Limits of the model: floats, tuples, sets and user classes do not occur as values;
  output on the console (\<^verbatim>\<open>print\<close>) is not modelled.
\<close>

type_synonym addr = nat

datatype 'v block = ContentBlock (block_type: 'v) (content: 'v) (block_metadata: 'v)

datatype val =
    VNone
  | VBool bool
  | VInt int
  | VStr string
  | VList "val list"
  | VDict addr
  | VBlock "val block"

text \<open>A mapping keeps its keys in insertion order; keys are strings.\<close>

type_synonym dict = "(string \<times> val) list"

type_synonym heap = "dict list"

definition deref :: "heap \<Rightarrow> addr \<Rightarrow> dict" where
  \<comment> \<open>Every address the program holds was allocated; an address outside the store
      (which Python cannot produce) reads as the empty mapping.\<close>
  "deref h a = (if a < length h then h ! a else [])"

definition alloc :: "heap \<Rightarrow> dict \<Rightarrow> addr \<times> heap" where
  "alloc h d = (length h, h @ [d])"

definition store :: "heap \<Rightarrow> addr \<Rightarrow> dict \<Rightarrow> heap" where
  "store h a d = (if a < length h then h[a := d] else h)"

datatype error =
    TemplateNotFound string
    \<comment> \<open>\<^verbatim>\<open>ValueError(f"Template '{template_name}' not found")\<close>\<close>
  | UnsatisfiedDependency "string list"
    \<comment> \<open>\<^verbatim>\<open>ValueError(f"Missing dependencies: {missing_deps}")\<close>\<close>
  | RendererNotFound string
    \<comment> \<open>\<^verbatim>\<open>ValueError(f"Renderer for format '{output_format}' not found")\<close>\<close>
  | KeyError string
  | IndexError
  | TypeError
  | AttributeError

text \<open>
  The parameters of the model: what Python's \<^verbatim>\<open>str\<close> prints for a list, a mapping or a
  \<^verbatim>\<open>ContentBlock\<close>; the order in which a \<^verbatim>\<open>set\<close> is iterated (it depends on the hash
  seed of the process); the characters of a text, each as a text of its own; and the string
  methods \<^verbatim>\<open>strip\<close>, \<^verbatim>\<open>lower\<close>, \<^verbatim>\<open>upper\<close> and \<^verbatim>\<open>capitalize\<close>.
\<close>

record py =
  repr_of :: "heap \<Rightarrow> val \<Rightarrow> string"
  set_order :: "val list \<Rightarrow> val list"
  code_points :: "string \<Rightarrow> string list"
  str_strip :: "string \<Rightarrow> string"
  str_lower :: "string \<Rightarrow> string"
  str_upper :: "string \<Rightarrow> string"
  str_capitalize :: "string \<Rightarrow> string"

subsection \<open>Built-in operations\<close>

fun truthy :: "heap \<Rightarrow> val \<Rightarrow> bool" where
  "truthy h VNone = False"
| "truthy h (VBool b) = b"
| "truthy h (VInt i) = (i \<noteq> 0)"
| "truthy h (VStr s) = (s \<noteq> [])"
| "truthy h (VList xs) = (xs \<noteq> [])"
| "truthy h (VDict a) = (deref h a \<noteq> [])"
| "truthy h (VBlock b) = True"

definition digit_char :: "nat \<Rightarrow> char" where
  "digit_char d = ''0123456789'' ! (d mod 10)"

fun digits :: "nat \<Rightarrow> string" where
  "digits n = (if n < 10 then [digit_char n] else digits (n div 10) @ [digit_char n])"

declare digits.simps [simp del]

definition str_int :: "int \<Rightarrow> string" where
  "str_int i = (if i < 0 then CHR ''-'' # digits (nat (- i)) else digits (nat i))"

fun py_str :: "py \<Rightarrow> heap \<Rightarrow> val \<Rightarrow> string" where
  \<comment> \<open>\<^verbatim>\<open>str(value)\<close>, also what an f-string prints for \<^verbatim>\<open>{value}\<close>\<close>
  "py_str rt h VNone = ''None''"
| "py_str rt h (VBool b) = (if b then ''True'' else ''False'')"
| "py_str rt h (VInt i) = str_int i"
| "py_str rt h (VStr s) = s"
| "py_str rt h v = repr_of rt h v"

text \<open>The string methods on ASCII text, where a character is one byte; they are the
  parameters of the concrete evaluations further down.\<close>

definition upper_letters :: string where
  "upper_letters = ''ABCDEFGHIJKLMNOPQRSTUVWXYZ''"

definition lower_letters :: string where
  "lower_letters = ''abcdefghijklmnopqrstuvwxyz''"

definition lower_char :: "char \<Rightarrow> char" where
  "lower_char c = (case map_of (zip upper_letters lower_letters) c of Some d \<Rightarrow> d | None \<Rightarrow> c)"

definition upper_char :: "char \<Rightarrow> char" where
  "upper_char c = (case map_of (zip lower_letters upper_letters) c of Some d \<Rightarrow> d | None \<Rightarrow> c)"

definition ascii_lower :: "string \<Rightarrow> string" where
  "ascii_lower s = map lower_char s"

definition ascii_upper :: "string \<Rightarrow> string" where
  "ascii_upper s = map upper_char s"

definition ascii_capitalize :: "string \<Rightarrow> string" where
  "ascii_capitalize s = (case s of [] \<Rightarrow> [] | c # cs \<Rightarrow> upper_char c # ascii_lower cs)"

definition ascii_space :: "char \<Rightarrow> bool" where
  \<comment> \<open>the ASCII characters for which \<^verbatim>\<open>str.isspace\<close> holds: 9..13, 28..31, 32\<close>
  "ascii_space c = (let n = (of_char c :: nat) in (9 \<le> n \<and> n \<le> 13) \<or> (28 \<le> n \<and> n \<le> 32))"

definition ascii_strip :: "string \<Rightarrow> string" where
  "ascii_strip s = rev (dropWhile ascii_space (rev (dropWhile ascii_space s)))"

definition ascii_chars :: "string \<Rightarrow> string list" where
  "ascii_chars s = map (\<lambda>c. [c]) s"

fun split :: "char \<Rightarrow> string \<Rightarrow> string list" where
  \<comment> \<open>\<^verbatim>\<open>s.split(sep)\<close> for a separator of one character\<close>
  "split sep [] = [[]]"
| "split sep (c # cs) =
     (if c = sep then [] # split sep cs
      else (case split sep cs of [] \<Rightarrow> [[c]] | w # ws \<Rightarrow> (c # w) # ws))"

fun join :: "string \<Rightarrow> string list \<Rightarrow> string" where
  "join sep [] = []"
| "join sep [x] = x"
| "join sep (x # y # ys) = x @ sep @ join sep (y # ys)"

definition slice_to :: "'a list \<Rightarrow> int \<Rightarrow> 'a list" where
  \<comment> \<open>\<^verbatim>\<open>xs[:n]\<close>: a negative bound counts from the end\<close>
  "slice_to xs n = (if 0 \<le> n then take (nat n) xs else take (nat (int (length xs) + n)) xs)"

definition as_index :: "val \<Rightarrow> error + int" where
  \<comment> \<open>a slice bound must be an integer (\<^verbatim>\<open>bool\<close> is one) or \<^verbatim>\<open>None\<close>; the callers below
      only pass truthy values\<close>
  "as_index v = (case v of VInt n \<Rightarrow> Inr n | VBool b \<Rightarrow> Inr (if b then 1 else 0) | _ \<Rightarrow> Inl TypeError)"

fun hashable :: "val \<Rightarrow> bool" where
  "hashable (VList xs) = False"
| "hashable (VDict a) = False"
| "hashable (VBlock b) = False"
    \<comment> \<open>\<^verbatim>\<open>@dataclass\<close> with the default \<^verbatim>\<open>eq=True\<close> sets \<^verbatim>\<open>__hash__\<close> to \<^verbatim>\<open>None\<close>\<close>
| "hashable v = True"

fun hkey :: "val \<Rightarrow> val" where
  \<comment> \<open>\<^verbatim>\<open>True == 1\<close> and \<^verbatim>\<open>False == 0\<close>, with equal hashes: as keys they are the same\<close>
  "hkey (VBool b) = VInt (if b then 1 else 0)"
| "hkey v = v"

fun first_seen :: "val list \<Rightarrow> val list" where
  \<comment> \<open>the keys of \<^verbatim>\<open>dict.fromkeys(xs)\<close>, in insertion order\<close>
  "first_seen [] = []"
| "first_seen (x # xs) = x # first_seen (filter (\<lambda>y. hkey y \<noteq> hkey x) xs)"

definition fromkeys :: "val list \<Rightarrow> error + val list" where
  "fromkeys xs = (if list_all hashable xs then Inr (first_seen xs) else Inl TypeError)"

definition fmt_get :: "dict option \<Rightarrow> string \<Rightarrow> val" where
  \<comment> \<open>\<^verbatim>\<open>formatting.get(key)\<close>, for a \<^verbatim>\<open>formatting\<close> that is a mapping\<close>
  "fmt_get formatting k = (case formatting of None \<Rightarrow> VNone
     | Some d \<Rightarrow> (case map_of d k of None \<Rightarrow> VNone | Some v \<Rightarrow> v))"

definition fmt_set :: "dict option \<Rightarrow> bool" where
  \<comment> \<open>\<^verbatim>\<open>if formatting:\<close> \<^verbatim>\<open>None\<close> and the empty mapping are false\<close>
  "fmt_set formatting = (case formatting of None \<Rightarrow> False | Some d \<Rightarrow> d \<noteq> [])"

section \<open>The template engine\<close>

record TemplateField =
  field_name :: string
  field_type :: string
  required :: bool
  default_value :: val
  validation_rules :: "string list option"
  formatting :: "dict option"

record TemplateDefinition =
  name :: string
  description :: string
  template_fields :: "TemplateField list"
  dependencies :: "string list option"
  output_format :: string
  metadata :: "dict option"

text \<open>The mapping \<^verbatim>\<open>{"template_name": ..., "metadata": ..., "content": {...}}\<close> that
  \<^verbatim>\<open>render\<close> builds and returns.\<close>

record Document =
  template_name :: string
  doc_metadata :: dict
  doc_content :: dict

subsection \<open>\<^verbatim>\<open>JSONTemplateRenderer\<close>: field coercion\<close>

definition process_text_field :: "py \<Rightarrow> heap \<Rightarrow> val \<Rightarrow> dict option \<Rightarrow> error + val" where
  "process_text_field rt h v fmt =
     (let s = py_str rt h v in
      if fmt_set fmt then
        (let s1 = (if truthy h (fmt_get fmt ''capitalize'') then str_capitalize rt s else s);
             s2 = (if truthy h (fmt_get fmt ''uppercase'') then str_upper rt s1 else s1);
             s3 = (if truthy h (fmt_get fmt ''lowercase'') then str_lower rt s2 else s2)
         in if truthy h (fmt_get fmt ''max_length'')
            then (case as_index (fmt_get fmt ''max_length'') of
                    Inl e \<Rightarrow> Inl e
                  | Inr n \<Rightarrow> Inr (VStr (concat (slice_to (code_points rt s3) n))))
            else Inr (VStr s3))
      else Inr (VStr s))"

definition str_items :: "py \<Rightarrow> string \<Rightarrow> val list" where
  \<comment> \<open>\<^verbatim>\<open>[item.strip() for item in value.split(",") if item.strip()]\<close>\<close>
  "str_items rt s =
     map (\<lambda>item. VStr (str_strip rt item))
       (filter (\<lambda>item. str_strip rt item \<noteq> []) (split CHR '','' s))"

definition as_items :: "py \<Rightarrow> val \<Rightarrow> val list" where
  "as_items rt v = (case v of VList xs \<Rightarrow> xs | VStr s \<Rightarrow> str_items rt s | _ \<Rightarrow> [v])"

definition process_list_field :: "py \<Rightarrow> heap \<Rightarrow> val \<Rightarrow> dict option \<Rightarrow> error + val" where
  "process_list_field rt h v fmt =
     (let xs = as_items rt v in
      if fmt_set fmt then
        (case (if truthy h (fmt_get fmt ''max_items'')
               then (case as_index (fmt_get fmt ''max_items'') of
                       Inl e \<Rightarrow> Inl e | Inr n \<Rightarrow> Inr (slice_to xs n))
               else Inr xs) of
           Inl e \<Rightarrow> Inl e
         | Inr ys \<Rightarrow>
             if truthy h (fmt_get fmt ''unique'')
             then (case fromkeys ys of Inl e \<Rightarrow> Inl e | Inr zs \<Rightarrow> Inr (VList zs))
             else Inr (VList ys))
      else Inr (VList xs))"

definition block_result :: "py \<Rightarrow> heap \<Rightarrow> val \<Rightarrow> addr \<times> heap" where
  \<comment> \<open>the mapping \<^verbatim>\<open>result\<close> of \<^verbatim>\<open>_process_block_field\<close>: built afresh from a
      \<^verbatim>\<open>ContentBlock\<close> or from any other value, but the caller's own object when the value
      is a mapping\<close>
  "block_result rt h v =
     (case v of
        VBlock b \<Rightarrow>
          (if truthy h (block_metadata b)
           then alloc h [(''type'', block_type b), (''content'', content b),
                         (''metadata'', block_metadata b)]
           else (let (m, h1) = alloc h [] in
                 alloc h1 [(''type'', block_type b), (''content'', content b),
                           (''metadata'', VDict m)]))
      | VDict a \<Rightarrow> (a, h)
      | _ \<Rightarrow> alloc h [(''content'', VStr (py_str rt h v)), (''type'', VStr ''text'')])"

definition process_block_field :: "py \<Rightarrow> heap \<Rightarrow> val \<Rightarrow> dict option \<Rightarrow> (error + val) \<times> heap" where
  "process_block_field rt h v fmt =
     (let (r, h1) = block_result rt h v in
      if fmt_set fmt then
        (let h2 = (if fmt_get fmt ''include_metadata'' = VBool False
                   then store h1 r (AList.delete ''metadata'' (deref h1 r)) else h1)
         in if truthy h2 (fmt_get fmt ''content_only'')
            then (case map_of (deref h2 r) ''content'' of
                    None \<Rightarrow> (Inl (KeyError ''content''), h2)
                  | Some c \<Rightarrow> (Inr c, h2))
            else (Inr (VDict r), h2))
      else (Inr (VDict r), h1))"

definition process_structured_field :: "heap \<Rightarrow> val \<Rightarrow> dict option \<Rightarrow> (error + val) \<times> heap" where
  "process_structured_field h v fmt =
     (case v of
        VDict a \<Rightarrow> (Inr (VDict a), h)
      | _ \<Rightarrow> (let (r, h1) = alloc h [(''value'', v)] in (Inr (VDict r), h1)))"

definition raw_value :: "heap \<Rightarrow> TemplateField \<Rightarrow> addr \<Rightarrow> val" where
  \<comment> \<open>\<^verbatim>\<open>data.get(field.name, field.default_value)\<close>\<close>
  "raw_value h f d = (case map_of (deref h d) (field_name f) of None \<Rightarrow> default_value f | Some v \<Rightarrow> v)"

definition process_field :: "py \<Rightarrow> heap \<Rightarrow> TemplateField \<Rightarrow> addr \<Rightarrow> (error + val) \<times> heap" where
  "process_field rt h f d =
     (let raw = raw_value h f d in
      if raw = VNone then (Inr VNone, h)
      else if field_type f = ''text'' then (process_text_field rt h raw (formatting f), h)
      else if field_type f = ''list'' then (process_list_field rt h raw (formatting f), h)
      else if field_type f = ''block'' then process_block_field rt h raw (formatting f)
      else if field_type f = ''structured'' then process_structured_field h raw (formatting f)
      else (Inr raw, h))"

fun render_fields :: "py \<Rightarrow> heap \<Rightarrow> addr \<Rightarrow> TemplateField list \<Rightarrow> dict \<Rightarrow> (error + dict) \<times> heap" where
  \<comment> \<open>the loop of \<^verbatim>\<open>render\<close> over \<^verbatim>\<open>template.fields\<close>; the last argument is
      \<^verbatim>\<open>result["content"]\<close> so far\<close>
  "render_fields rt h d [] acc = (Inr acc, h)"
| "render_fields rt h d (f # fs) acc =
     (case process_field rt h f d of
        (Inl e, h1) \<Rightarrow> (Inl e, h1)
      | (Inr v, h1) \<Rightarrow>
          render_fields rt h1 d fs
            (if v \<noteq> VNone \<or> \<not> required f then AList.update (field_name f) v acc else acc))"

definition render :: "py \<Rightarrow> heap \<Rightarrow> TemplateDefinition \<Rightarrow> addr \<Rightarrow> (error + Document) \<times> heap" where
  "render rt h t d =
     (case render_fields rt h d (template_fields t) [] of
        (Inl e, h1) \<Rightarrow> (Inl e, h1)
      | (Inr c, h1) \<Rightarrow>
          (Inr \<lparr>template_name = name t,
                doc_metadata = (case metadata t of None \<Rightarrow> [] | Some m \<Rightarrow> m),
                doc_content = c\<rparr>, h1))"


section \<open>Content blocks\<close>

text \<open>
  The generators of \<^verbatim>\<open>content_blocks.py\<close> read attributes of untyped mappings, so the
  operations they use are modelled on every value, with the exception Python raises where
  the value has the wrong shape.
\<close>

definition and_then :: "error + 'a \<Rightarrow> ('a \<Rightarrow> error + 'b) \<Rightarrow> error + 'b" where
  "and_then m f = (case m of Inl e \<Rightarrow> Inl e | Inr x \<Rightarrow> f x)"

definition get :: "heap \<Rightarrow> val \<Rightarrow> string \<Rightarrow> val \<Rightarrow> error + val" where
  \<comment> \<open>\<^verbatim>\<open>obj.get(key, default)\<close>: only a mapping has the method\<close>
  "get h obj k dflt =
     (case obj of
        VDict a \<Rightarrow> Inr (case map_of (deref h a) k of None \<Rightarrow> dflt | Some v \<Rightarrow> v)
      | _ \<Rightarrow> Inl AttributeError)"

definition item :: "heap \<Rightarrow> val \<Rightarrow> string \<Rightarrow> error + val" where
  \<comment> \<open>\<^verbatim>\<open>obj[key]\<close> for a text key\<close>
  "item h obj k =
     (case obj of
        VDict a \<Rightarrow> (case map_of (deref h a) k of None \<Rightarrow> Inl (KeyError k) | Some v \<Rightarrow> Inr v)
      | _ \<Rightarrow> Inl TypeError)"

definition len :: "py \<Rightarrow> heap \<Rightarrow> val \<Rightarrow> error + nat" where
  \<comment> \<open>a mapping has distinct keys, so its size is the length of its list of entries\<close>
  "len rt h v =
     (case v of
        VStr s \<Rightarrow> Inr (length (code_points rt s))
      | VList xs \<Rightarrow> Inr (length xs)
      | VDict a \<Rightarrow> Inr (length (deref h a))
      | _ \<Rightarrow> Inl TypeError)"

definition chars :: "py \<Rightarrow> string \<Rightarrow> val list" where
  "chars rt s = map VStr (code_points rt s)"

definition all_but_last :: "py \<Rightarrow> val \<Rightarrow> error + val" where
  \<comment> \<open>\<^verbatim>\<open>v[:-1]\<close>; a mapping does not take a slice\<close>
  "all_but_last rt v =
     (case v of
        VStr s \<Rightarrow> Inr (VStr (concat (butlast (code_points rt s))))
      | VList xs \<Rightarrow> Inr (VList (butlast xs))
      | _ \<Rightarrow> Inl TypeError)"

definition first_item :: "py \<Rightarrow> val \<Rightarrow> error + val" where
  \<comment> \<open>\<^verbatim>\<open>v[0]\<close>; the keys of a mapping are strings, so \<^verbatim>\<open>0\<close> is not one of them\<close>
  "first_item rt v =
     (case v of
        VStr s \<Rightarrow> (case code_points rt s of [] \<Rightarrow> Inl IndexError | c # _ \<Rightarrow> Inr (VStr c))
      | VList xs \<Rightarrow> (case xs of [] \<Rightarrow> Inl IndexError | x # _ \<Rightarrow> Inr x)
      | VDict a \<Rightarrow> Inl (KeyError ''0'')
      | _ \<Rightarrow> Inl TypeError)"

definition last_item :: "py \<Rightarrow> val \<Rightarrow> error + val" where
  \<comment> \<open>\<^verbatim>\<open>v[-1]\<close>\<close>
  "last_item rt v =
     (case v of
        VStr s \<Rightarrow> (if code_points rt s = [] then Inl IndexError
                   else Inr (VStr (last (code_points rt s))))
      | VList xs \<Rightarrow> (if xs = [] then Inl IndexError else Inr (last xs))
      | VDict a \<Rightarrow> Inl (KeyError ''-1'')
      | _ \<Rightarrow> Inl TypeError)"

definition iterate :: "py \<Rightarrow> heap \<Rightarrow> val \<Rightarrow> error + val list" where
  \<comment> \<open>the items a \<^verbatim>\<open>for\<close> loop sees: the characters of a string, the keys of a mapping\<close>
  "iterate rt h v =
     (case v of
        VStr s \<Rightarrow> Inr (chars rt s)
      | VList xs \<Rightarrow> Inr xs
      | VDict a \<Rightarrow> Inr (map (\<lambda>kv. VStr (fst kv)) (deref h a))
      | _ \<Rightarrow> Inl TypeError)"

fun the_strs :: "val list \<Rightarrow> error + string list" where
  "the_strs [] = Inr []"
| "the_strs (VStr s # xs) = and_then (the_strs xs) (\<lambda>ss. Inr (s # ss))"
| "the_strs (v # xs) = Inl TypeError"

definition join_items :: "string \<Rightarrow> val list \<Rightarrow> error + string" where
  \<comment> \<open>\<^verbatim>\<open>sep.join(items)\<close>: every item must be a string\<close>
  "join_items sep xs = and_then (the_strs xs) (\<lambda>ss. Inr (join sep ss))"

definition py_join :: "py \<Rightarrow> heap \<Rightarrow> string \<Rightarrow> val \<Rightarrow> error + string" where
  "py_join rt h sep v = and_then (iterate rt h v) (join_items sep)"

text \<open>A \<^verbatim>\<open>set\<close> is the list of its distinct members; \<^verbatim>\<open>set_order\<close> of the runtime
  gives the order in which it is iterated.\<close>

definition py_set :: "py \<Rightarrow> heap \<Rightarrow> val \<Rightarrow> error + val list" where
  "py_set rt h v = and_then (iterate rt h v) fromkeys"

definition intersection :: "val list \<Rightarrow> val list \<Rightarrow> val list" where
  "intersection A B = filter (\<lambda>x. hkey x \<in> hkey ` set B) A"

definition difference :: "val list \<Rightarrow> val list \<Rightarrow> val list" where
  "difference A B = filter (\<lambda>x. hkey x \<notin> hkey ` set B) A"

definition mk_block :: "heap \<Rightarrow> string \<Rightarrow> val \<Rightarrow> dict \<Rightarrow> error + val block \<times> heap" where
  \<comment> \<open>\<^verbatim>\<open>ContentBlock(block_type=..., content=..., metadata={...})\<close>\<close>
  "mk_block h ty c md = (let (m, h1) = alloc h md in Inr (ContentBlock (VStr ty) c (VDict m), h1))"

definition listing :: "py \<Rightarrow> heap \<Rightarrow> val \<Rightarrow> error + string" where
  \<comment> \<open>\<^verbatim>\<open>", ".join(xs[:-1]) + f" and {xs[-1]}"\<close>\<close>
  "listing rt h xs =
     and_then (all_but_last rt xs) (\<lambda>front.
     and_then (py_join rt h '', '' front) (\<lambda>s.
     and_then (last_item rt xs) (\<lambda>l. Inr (s @ '' and '' @ py_str rt h l))))"

definition BenefitsBlock_generate :: "py \<Rightarrow> heap \<Rightarrow> val \<Rightarrow> error + val block \<times> heap" where
  "BenefitsBlock_generate rt h product_data =
     and_then (get h product_data ''benefits'' (VList [])) (\<lambda>benefits.
     and_then (get h product_data ''name'' (VStr ''this product'')) (\<lambda>product_name.
     and_then
       (if \<not> truthy h benefits
        then Inr (''Benefits for '' @ py_str rt h product_name @ '' are not provided.'')
        else and_then (len rt h benefits) (\<lambda>n.
             and_then (if n > 1 then listing rt h benefits
                       else and_then (first_item rt benefits) (\<lambda>b. Inr (py_str rt h b))) (\<lambda>benefit_text.
             Inr (py_str rt h product_name @ '' delivers powerful benefits including ''
                    @ benefit_text @ ''.'')))) (\<lambda>text.
     and_then (len rt h benefits) (\<lambda>n.
     mk_block h ''benefits'' (VStr text) [(''benefit_count'', VInt (int n))]))))"

definition UsageBlock_generate :: "py \<Rightarrow> heap \<Rightarrow> val \<Rightarrow> error + val block \<times> heap" where
  "UsageBlock_generate rt h product_data =
     and_then (get h product_data ''usage_instructions'' VNone) (\<lambda>usage.
     and_then (get h product_data ''name'' (VStr ''this product'')) (\<lambda>product_name.
     mk_block h ''usage''
       (VStr (if truthy h usage
              then ''How to use '' @ py_str rt h product_name @ '': '' @ py_str rt h usage
              else ''Usage instructions for '' @ py_str rt h product_name @ '' are not provided.''))
       [(''has_instructions'', VBool (truthy h usage))]))"

definition IngredientsBlock_generate :: "py \<Rightarrow> heap \<Rightarrow> val \<Rightarrow> val \<Rightarrow> error + val block \<times> heap" where
  \<comment> \<open>the last argument is \<^verbatim>\<open>detailed\<close>, \<^verbatim>\<open>False\<close> when the caller leaves it out\<close>
  "IngredientsBlock_generate rt h product_data detailed =
     and_then (get h product_data ''key_ingredients'' (VList [])) (\<lambda>ingredients.
     and_then (get h product_data ''concentration'' VNone) (\<lambda>concentration.
     and_then (get h product_data ''name'' (VStr ''this product'')) (\<lambda>product_name.
     and_then
       (if \<not> truthy h ingredients
        then Inr (''Key ingredients for '' @ py_str rt h product_name @ '' are not provided.'')
        else and_then (len rt h ingredients) (\<lambda>n.
             and_then
               (if truthy h detailed \<and> n > 1
                then and_then (listing rt h ingredients) (\<lambda>s. Inr (''key ingredients '' @ s))
                else if n > 1 then py_join rt h '' and '' ingredients
                else and_then (first_item rt ingredients) (\<lambda>i. Inr (py_str rt h i))) (\<lambda>ingredient_text.
             Inr (py_str rt h product_name @ '' features '' @ ingredient_text
                  @ (if truthy h concentration
                     then '' at '' @ py_str rt h concentration @ '' concentration'' else [])
                  @ ''.'')))) (\<lambda>text.
     and_then (len rt h ingredients) (\<lambda>n.
     mk_block h ''ingredients'' (VStr text)
       [(''ingredient_count'', VInt (int n)), (''detailed'', detailed)])))))"

definition SafetyBlock_generate :: "py \<Rightarrow> heap \<Rightarrow> val \<Rightarrow> error + val block \<times> heap" where
  "SafetyBlock_generate rt h product_data =
     and_then (get h product_data ''side_effects'' VNone) (\<lambda>side_effects.
     and_then (get h product_data ''name'' (VStr ''this product'')) (\<lambda>product_name.
     mk_block h ''safety''
       (VStr (if truthy h side_effects
              then ''Safety information: '' @ py_str rt h side_effects
              else ''Side effects information for '' @ py_str rt h product_name
                   @ '' is not provided.''))
       [(''has_warnings'', VBool (truthy h side_effects))]))"

definition SkinTypeBlock_generate :: "py \<Rightarrow> heap \<Rightarrow> val \<Rightarrow> error + val block \<times> heap" where
  "SkinTypeBlock_generate rt h product_data =
     and_then (get h product_data ''skin_types'' (VList [])) (\<lambda>skin_types.
     and_then (get h product_data ''name'' (VStr ''this product'')) (\<lambda>product_name.
     and_then
       (if \<not> truthy h skin_types
        then Inr (''Suitable skin types for '' @ py_str rt h product_name @ '' are not specified.'')
        else and_then (len rt h skin_types) (\<lambda>n.
             if n > 1
             then and_then (listing rt h skin_types) (\<lambda>skin_text.
                  Inr (py_str rt h product_name @ '' is specially formulated for '' @ skin_text
                       @ '' skin types.''))
             else and_then (first_item rt skin_types) (\<lambda>s.
                  Inr (py_str rt h product_name @ '' is ideal for '' @ py_str rt h s @ '' skin.'')))) (\<lambda>text.
     and_then (len rt h skin_types) (\<lambda>n.
     mk_block h ''skin_type'' (VStr text) [(''skin_type_count'', VInt (int n))]))))"

definition PriceBlock_generate :: "py \<Rightarrow> heap \<Rightarrow> val \<Rightarrow> error + val block \<times> heap" where
  "PriceBlock_generate rt h product_data =
     and_then (get h product_data ''price'' VNone) (\<lambda>price.
     and_then (get h product_data ''name'' (VStr ''this product'')) (\<lambda>product_name.
     mk_block h ''price''
       (VStr (if truthy h price
              then py_str rt h product_name @ '' is priced at '' @ py_str rt h price @ ''.''
              else ''Price for '' @ py_str rt h product_name @ '' is not provided.''))
       [(''has_price'', VBool (truthy h price))]))"


definition sentence :: "string list \<Rightarrow> string \<Rightarrow> string" where
  \<comment> \<open>\<^verbatim>\<open>". ".join(content_parts) + "." if content_parts else fallback\<close>\<close>
  "sentence content_parts fallback =
     (if content_parts \<noteq> [] then join ''. '' content_parts @ ''.'' else fallback)"

definition part :: "py \<Rightarrow> heap \<Rightarrow> val list \<Rightarrow> error + string \<Rightarrow> error + string list" where
  \<comment> \<open>one \<^verbatim>\<open>if members: content_parts.append(f"{lead} {', '.join(members)}")\<close>; the
      lead is evaluated after the join\<close>
  "part rt h members lead =
     (if members \<noteq> []
      then and_then (join_items '', '' (set_order rt members)) (\<lambda>text.
           and_then lead (\<lambda>l. Inr [l @ '' '' @ text]))
      else Inr [])"

definition name_of :: "py \<Rightarrow> heap \<Rightarrow> val \<Rightarrow> error + string" where
  \<comment> \<open>\<^verbatim>\<open>{product['name']}\<close> inside an f-string\<close>
  "name_of rt h product = and_then (item h product ''name'') (\<lambda>n. Inr (py_str rt h n))"

definition compare_sets ::
  "py \<Rightarrow> heap \<Rightarrow> val \<Rightarrow> val \<Rightarrow> string \<Rightarrow> string \<Rightarrow> string \<Rightarrow> string \<Rightarrow> string \<Rightarrow> string \<Rightarrow> string
     \<Rightarrow> error + val block \<times> heap" where
  \<comment> \<open>the common body of \<^verbatim>\<open>compare_ingredients\<close> and \<^verbatim>\<open>compare_benefits\<close>, which differ
      in the attribute read, the wording and the names of the block and of its first fact\<close>
  "compare_sets rt h product_a product_b attr both_lead a_lead b_lead fallback ty common_key =
     and_then (get h product_a attr (VList [])) (\<lambda>xs_a.
     and_then (py_set rt h xs_a) (\<lambda>set_a.
     and_then (get h product_b attr (VList [])) (\<lambda>xs_b.
     and_then (py_set rt h xs_b) (\<lambda>set_b.
       (let common = intersection set_a set_b;
            unique_a = difference set_a set_b;
            unique_b = difference set_b set_a
        in and_then (part rt h common (Inr both_lead)) (\<lambda>p1.
           and_then (part rt h unique_a
                       (and_then (name_of rt h product_a) (\<lambda>n. Inr (n @ a_lead)))) (\<lambda>p2.
           and_then (part rt h unique_b
                       (and_then (name_of rt h product_b) (\<lambda>n. Inr (n @ b_lead)))) (\<lambda>p3.
           mk_block h ty (VStr (sentence (p1 @ p2 @ p3) fallback))
             [(common_key, VInt (int (length common))),
              (''unique_a'', VInt (int (length unique_a))),
              (''unique_b'', VInt (int (length unique_b)))]))))))))"

definition compare_ingredients :: "py \<Rightarrow> heap \<Rightarrow> val \<Rightarrow> val \<Rightarrow> error + val block \<times> heap" where
  "compare_ingredients rt h product_a product_b =
     compare_sets rt h product_a product_b ''key_ingredients''
       ''Both products contain'' '' uniquely features'' '' uniquely features''
       ''Both products have distinct ingredient formulations.''
       ''ingredient_comparison'' ''common_ingredients''"

definition compare_benefits :: "py \<Rightarrow> heap \<Rightarrow> val \<Rightarrow> val \<Rightarrow> error + val block \<times> heap" where
  "compare_benefits rt h product_a product_b =
     compare_sets rt h product_a product_b ''benefits''
       ''Both products offer'' '' specifically provides'' '' focuses on''
       ''Each product offers unique benefits.''
       ''benefit_comparison'' ''common_benefits''"

definition compare_prices :: "py \<Rightarrow> heap \<Rightarrow> val \<Rightarrow> val \<Rightarrow> error + val block \<times> heap" where
  "compare_prices rt h product_a product_b =
     and_then (get h product_a ''price'' (VStr ''unspecified'')) (\<lambda>price_a.
     and_then (get h product_b ''price'' (VStr ''unspecified'')) (\<lambda>price_b.
     and_then (name_of rt h product_a) (\<lambda>name_a.
     and_then (name_of rt h product_b) (\<lambda>name_b.
     and_then (get h product_a ''price'' VNone) (\<lambda>pa.
     and_then (get h product_b ''price'' VNone) (\<lambda>pb.
     mk_block h ''price_comparison''
       (VStr (''Price comparison: '' @ name_a @ '' ('' @ py_str rt h price_a @ '') vs ''
              @ name_b @ '' ('' @ py_str rt h price_b @ '').''))
       [(''both_priced'', VBool (truthy h pa \<and> truthy h pb))]))))))"

definition contains :: "string \<Rightarrow> string \<Rightarrow> bool" where
  \<comment> \<open>\<^verbatim>\<open>keyword in text\<close>\<close>
  "contains text keyword = sublist keyword text"

definition classify_question :: "py \<Rightarrow> string \<Rightarrow> string" where
  "classify_question rt question =
     (let question_lower = str_lower rt question in
      if list_ex (contains question_lower) [''what is'', ''what are''] then ''informational''
      else if list_ex (contains question_lower) [''how to'', ''apply'', ''use''] then ''usage''
      else if list_ex (contains question_lower) [''safe'', ''side effect'', ''precaution''] then ''safety''
      else if list_ex (contains question_lower) [''skin type'', ''suitable''] then ''skin_type''
      else if contains question_lower ''price'' then ''purchase''
      else ''general'')"

definition or_else :: "heap \<Rightarrow> val \<Rightarrow> val \<Rightarrow> val" where
  \<comment> \<open>\<^verbatim>\<open>x if x else y\<close>, which is also \<^verbatim>\<open>x or y\<close>\<close>
  "or_else h x y = (if truthy h x then x else y)"

text \<open>The branches of the \<^verbatim>\<open>if\<close>/\<^verbatim>\<open>elif\<close> chain of \<^verbatim>\<open>generate_answer\<close>; \<open>pn\<close> is the
  product name as the f-strings print it.\<close>

definition price_answer :: "py \<Rightarrow> heap \<Rightarrow> val \<Rightarrow> string \<Rightarrow> error + val" where
  "price_answer rt h product_data pn =
     and_then (get h product_data ''price'' VNone) (\<lambda>price.
     Inr (if truthy h price then VStr (pn @ '' costs '' @ py_str rt h price @ ''.'')
          else VStr (''Price for '' @ pn @ '' is not provided.'')))"

definition informational_answer :: "py \<Rightarrow> heap \<Rightarrow> string \<Rightarrow> val \<Rightarrow> string \<Rightarrow> error + val" where
  "informational_answer rt h question_lower product_data pn =
     (if contains question_lower ''ingredient'' then
        and_then (get h product_data ''key_ingredients'' (VList [])) (\<lambda>xs.
        and_then (py_join rt h '', '' xs) (\<lambda>ingredients.
        Inr (if ingredients \<noteq> [] then VStr (pn @ '' contains '' @ ingredients @ ''.'')
             else VStr (''Key ingredients for '' @ pn @ '' are not provided.''))))
      else if contains question_lower ''benefit'' then
        and_then (get h product_data ''benefits'' (VList [])) (\<lambda>xs.
        and_then (py_join rt h '', '' xs) (\<lambda>benefits.
        Inr (if benefits \<noteq> [] then VStr (pn @ '' provides '' @ benefits @ ''.'')
             else VStr (''Benefits for '' @ pn @ '' are not provided.''))))
      else
        and_then (get h product_data ''category'' VNone) (\<lambda>category.
        Inr (if truthy h category
             then VStr (pn @ '' is a '' @ py_str rt h category @ '' product.'')
             else VStr (pn @ '' is a product.''))))"

definition usage_answer :: "heap \<Rightarrow> val \<Rightarrow> string \<Rightarrow> error + val" where
  "usage_answer h product_data pn =
     and_then (get h product_data ''usage_instructions'' VNone) (\<lambda>usage.
     Inr (or_else h usage (VStr (''Usage instructions for '' @ pn @ '' are not provided.''))))"

definition safety_answer :: "heap \<Rightarrow> val \<Rightarrow> string \<Rightarrow> error + val" where
  "safety_answer h product_data pn =
     and_then (get h product_data ''side_effects'' VNone) (\<lambda>side_effects.
     Inr (or_else h side_effects
            (VStr (''Side effects information for '' @ pn @ '' is not provided.''))))"

definition skin_type_answer :: "py \<Rightarrow> heap \<Rightarrow> val \<Rightarrow> string \<Rightarrow> error + val" where
  "skin_type_answer rt h product_data pn =
     and_then (get h product_data ''skin_types'' (VList [])) (\<lambda>skin_types.
     if truthy h skin_types
     then and_then (py_join rt h '', '' skin_types) (\<lambda>skin_text.
          Inr (VStr (pn @ '' is suitable for '' @ skin_text @ '' skin types.'')))
     else Inr (VStr (''Suitable skin types for '' @ pn @ '' are not specified.'')))"

definition generic_answer :: "string \<Rightarrow> error + val" where
  "generic_answer pn =
     Inr (VStr (''The available product data does not specify this detail for '' @ pn @ ''.''))"

definition answer_for :: "py \<Rightarrow> heap \<Rightarrow> string \<Rightarrow> val \<Rightarrow> val \<Rightarrow> error + val" where
  "answer_for rt h question_lower product_data product_name =
     (let pn = py_str rt h product_name in
      if contains question_lower ''price'' then price_answer rt h product_data pn
      else if contains question_lower ''what is'' \<or> contains question_lower ''what are''
        then informational_answer rt h question_lower product_data pn
      else if contains question_lower ''how to use'' \<or> contains question_lower ''apply''
        then usage_answer h product_data pn
      else if contains question_lower ''side effect'' \<or> contains question_lower ''safe''
        then safety_answer h product_data pn
      else if contains question_lower ''skin type'' \<or> contains question_lower ''suitable''
        then skin_type_answer rt h product_data pn
      else generic_answer pn)"

definition generate_answer :: "py \<Rightarrow> heap \<Rightarrow> val \<Rightarrow> val \<Rightarrow> error + val block \<times> heap" where
  "generate_answer rt h question product_data =
     (case question of
        VStr q \<Rightarrow>
          and_then (get h product_data ''name'' (VStr ''this product'')) (\<lambda>product_name.
          and_then (answer_for rt h (str_lower rt q) product_data product_name) (\<lambda>answer.
          mk_block h ''qa_answer'' answer [(''question_type'', VStr (classify_question rt q))]))
      | _ \<Rightarrow> Inl AttributeError)"


section \<open>\<^verbatim>\<open>TemplateEngine\<close>\<close>

text \<open>The callables this repository registers as block generators, and the only renderer
  class it defines.\<close>

datatype generator =
    BenefitsBlock
  | UsageBlock
  | IngredientsBlock
  | SafetyBlock
  | SkinTypeBlock
  | PriceBlock
  | ComparisonBlock_ingredients
  | ComparisonBlock_benefits
  | ComparisonBlock_prices
  | QuestionAnswerBlock

datatype renderer = JSONTemplateRenderer

record TemplateEngine =
  templates :: "(string \<times> TemplateDefinition) list"
  renderers :: "(string \<times> renderer) list"
  block_generators :: "(string \<times> generator) list"

definition call1 :: "py \<Rightarrow> heap \<Rightarrow> generator \<Rightarrow> val \<Rightarrow> error + val block \<times> heap" where
  \<comment> \<open>\<^verbatim>\<open>generator(product_data)\<close>; a call with too few arguments is a \<^verbatim>\<open>TypeError\<close>\<close>
  "call1 rt h g pd =
     (case g of
        BenefitsBlock \<Rightarrow> BenefitsBlock_generate rt h pd
      | UsageBlock \<Rightarrow> UsageBlock_generate rt h pd
      | IngredientsBlock \<Rightarrow> IngredientsBlock_generate rt h pd (VBool False)
      | SafetyBlock \<Rightarrow> SafetyBlock_generate rt h pd
      | SkinTypeBlock \<Rightarrow> SkinTypeBlock_generate rt h pd
      | PriceBlock \<Rightarrow> PriceBlock_generate rt h pd
      | _ \<Rightarrow> Inl TypeError)"

definition call2 :: "py \<Rightarrow> heap \<Rightarrow> generator \<Rightarrow> val \<Rightarrow> val \<Rightarrow> error + val block \<times> heap" where
  \<comment> \<open>\<^verbatim>\<open>generator(x, y)\<close>; only \<^verbatim>\<open>IngredientsBlock.generate\<close> among the single-subject
      generators takes a second argument (\<^verbatim>\<open>detailed\<close>)\<close>
  "call2 rt h g x y =
     (case g of
        IngredientsBlock \<Rightarrow> IngredientsBlock_generate rt h x y
      | ComparisonBlock_ingredients \<Rightarrow> compare_ingredients rt h x y
      | ComparisonBlock_benefits \<Rightarrow> compare_benefits rt h x y
      | ComparisonBlock_prices \<Rightarrow> compare_prices rt h x y
      | QuestionAnswerBlock \<Rightarrow> generate_answer rt h x y
      | _ \<Rightarrow> Inl TypeError)"

definition default_blocks :: "(string \<times> generator) list" where
  \<comment> \<open>\<^verbatim>\<open>_register_default_blocks\<close> over \<^verbatim>\<open>CONTENT_BLOCKS\<close>\<close>
  "default_blocks =
     [(''benefits'', BenefitsBlock), (''usage'', UsageBlock), (''ingredients'', IngredientsBlock),
      (''safety'', SafetyBlock), (''skin_type'', SkinTypeBlock), (''price'', PriceBlock),
      (''comparison_ingredients'', ComparisonBlock_ingredients),
      (''comparison_benefits'', ComparisonBlock_benefits),
      (''comparison_prices'', ComparisonBlock_prices),
      (''qa_answer'', QuestionAnswerBlock)]"

definition init :: TemplateEngine where
  \<comment> \<open>\<^verbatim>\<open>TemplateEngine.__init__\<close>\<close>
  "init = \<lparr>templates = [], renderers = [(''json'', JSONTemplateRenderer)],
            block_generators = default_blocks\<rparr>"

definition register_template :: "TemplateEngine \<Rightarrow> TemplateDefinition \<Rightarrow> TemplateEngine" where
  "register_template eng t = eng\<lparr>templates := AList.update (name t) t (templates eng)\<rparr>"

definition register_renderer :: "TemplateEngine \<Rightarrow> string \<Rightarrow> renderer \<Rightarrow> TemplateEngine" where
  "register_renderer eng format_name r = eng\<lparr>renderers := AList.update format_name r (renderers eng)\<rparr>"

definition register_block_generator :: "TemplateEngine \<Rightarrow> string \<Rightarrow> generator \<Rightarrow> TemplateEngine" where
  "register_block_generator eng block_name g =
     eng\<lparr>block_generators := AList.update block_name g (block_generators eng)\<rparr>"

definition has_key :: "dict \<Rightarrow> string \<Rightarrow> bool" where
  \<comment> \<open>\<^verbatim>\<open>key in mapping\<close>\<close>
  "has_key d k = (map_of d k \<noteq> None)"

definition missing_deps :: "TemplateEngine \<Rightarrow> heap \<Rightarrow> string list \<Rightarrow> addr \<Rightarrow> string list" where
  \<comment> \<open>the list \<^verbatim>\<open>missing_deps\<close> that \<^verbatim>\<open>_check_dependencies\<close> collects\<close>
  "missing_deps eng h deps d =
     filter (\<lambda>dep. \<not> has_key (deref h d) dep \<and> map_of (block_generators eng) dep = None) deps"

definition put_block :: "heap \<Rightarrow> addr \<Rightarrow> string \<Rightarrow> error + val block \<times> heap \<Rightarrow> heap" where
  \<comment> \<open>\<^verbatim>\<open>enriched_data[dep] = block\<close> when the generator returned; when it raised, the
      \<^verbatim>\<open>except\<close> clause prints a warning and the loop goes on\<close>
  "put_block h e dep r =
     (case r of
        Inl err \<Rightarrow> h
      | Inr (b, h1) \<Rightarrow> store h1 e (AList.update dep (VBlock b) (deref h1 e)))"

definition is_dict :: "val \<Rightarrow> bool" where
  "is_dict v = (case v of VDict a \<Rightarrow> True | _ \<Rightarrow> False)"

definition data_get :: "heap \<Rightarrow> addr \<Rightarrow> string \<Rightarrow> val" where
  \<comment> \<open>\<^verbatim>\<open>data.get(key)\<close>\<close>
  "data_get h d k = (case map_of (deref h d) k of None \<Rightarrow> VNone | Some v \<Rightarrow> v)"

definition generate_dep :: "py \<Rightarrow> TemplateEngine \<Rightarrow> addr \<Rightarrow> addr \<Rightarrow> string \<Rightarrow> heap \<Rightarrow> heap" where
  \<comment> \<open>one round of the loop of \<^verbatim>\<open>_generate_content_blocks\<close>; \<open>d\<close> is \<^verbatim>\<open>data\<close>,
      \<open>e\<close> is \<^verbatim>\<open>enriched_data\<close>\<close>
  "generate_dep rt eng d e dep h =
     (case map_of (block_generators eng) dep of
        None \<Rightarrow> h
      | Some g \<Rightarrow>
          if has_key (deref h e) dep then h
          else if prefix ''comparison'' dep then
            (let product_a = or_else h (data_get h d ''product_a_full'') (data_get h d ''product_a'');
                 product_b = or_else h (data_get h d ''product_b_full'') (data_get h d ''product_b'')
             in if is_dict product_a \<and> is_dict product_b then
                  (if contains dep ''ingredients'' \<or> contains dep ''benefits'' \<or> contains dep ''prices''
                   then put_block h e dep (call2 rt h g product_a product_b)
                   else h)
                else h)
          else if suffix ''_answer'' dep then
            (if has_key (deref h d) ''question'' \<and> has_key (deref h d) ''product_data''
             then put_block h e dep
                    (call2 rt h g (data_get h d ''question'') (data_get h d ''product_data''))
             else h)
          else
            (if has_key (deref h d) ''product_data''
             then put_block h e dep (call1 rt h g (data_get h d ''product_data''))
             else h))"

definition generate_content_blocks ::
  "py \<Rightarrow> TemplateEngine \<Rightarrow> heap \<Rightarrow> TemplateDefinition \<Rightarrow> addr \<Rightarrow> addr \<times> heap" where
  "generate_content_blocks rt eng h t d =
     (let (e, h1) = alloc h (deref h d) in
      case dependencies t of
        None \<Rightarrow> (e, h1)
      | Some deps \<Rightarrow> (e, fold (generate_dep rt eng d e) deps h1))"

definition render_template ::
  "py \<Rightarrow> TemplateEngine \<Rightarrow> heap \<Rightarrow> string \<Rightarrow> addr \<Rightarrow> string \<Rightarrow> (error + Document) \<times> heap" where
  "render_template rt eng h tname d fmt =
     (case map_of (templates eng) tname of
        None \<Rightarrow> (Inl (TemplateNotFound tname), h)
      | Some t \<Rightarrow>
          (let missing = (case dependencies t of None \<Rightarrow> [] | Some deps \<Rightarrow> missing_deps eng h deps d)
           in if missing \<noteq> [] then (Inl (UnsatisfiedDependency missing), h)
              else (let (e, h1) = generate_content_blocks rt eng h t d in
                    case map_of (renderers eng) fmt of
                      None \<Rightarrow> (Inl (RendererNotFound fmt), h1)
                    | Some JSONTemplateRenderer \<Rightarrow> render rt h1 t e)))"


section \<open>Reference definitions and example inputs\<close>

text \<open>A runtime for the concrete evaluations below, which are on ASCII text: every
  composite value prints as \<^verbatim>\<open><object>\<close>, a set is iterated in insertion order, and
  the string methods are the ASCII ones.\<close>

definition py0 :: py where
  "py0 = \<lparr>repr_of = (\<lambda>h v. ''<object>''), set_order = (\<lambda>xs. xs),
           code_points = ascii_chars, str_strip = ascii_strip, str_lower = ascii_lower,
           str_upper = ascii_upper, str_capitalize = ascii_capitalize\<rparr>"

text \<open>Example templates and an engine that has them registered.\<close>

definition title_field :: TemplateField where
  "title_field = \<lparr>field_name = ''title'', field_type = ''text'', required = True,
      default_value = VStr ''Untitled'', validation_rules = None, formatting = None\<rparr>"

definition broken_page :: TemplateDefinition where
  "broken_page = \<lparr>name = ''broken_page'', description = ''a page that needs an unknown block'',
      template_fields = [title_field], dependencies = Some [''nonexistent_block''],
      output_format = ''json'', metadata = None\<rparr>"

definition benefits_page :: TemplateDefinition where
  "benefits_page = \<lparr>name = ''benefits_page'', description = ''a page with the benefits block'',
      template_fields = [title_field], dependencies = Some [''benefits''],
      output_format = ''json'', metadata = None\<rparr>"

definition engine0 :: TemplateEngine where
  "engine0 = register_template (register_template init broken_page) benefits_page"

text \<open>A page with two fields that have no default: one required, one optional.\<close>

definition summary_field :: TemplateField where
  "summary_field = \<lparr>field_name = ''summary'', field_type = ''text'', required = True,
      default_value = VNone, validation_rules = None, formatting = None\<rparr>"

definition notes_field :: TemplateField where
  "notes_field = \<lparr>field_name = ''notes'', field_type = ''text'', required = False,
      default_value = VNone, validation_rules = None, formatting = None\<rparr>"

definition notes_page :: TemplateDefinition where
  "notes_page = \<lparr>name = ''notes_page'', description = ''a page with a required and an optional field'',
      template_fields = [summary_field, notes_field], dependencies = None,
      output_format = ''json'', metadata = None\<rparr>"

text \<open>What one field coercion does to the store: it only grows, the mappings that were
  there keep their entries or lose some, and only the raw value itself can lose any.\<close>

definition frame :: "heap \<Rightarrow> val \<Rightarrow> heap \<Rightarrow> bool" where
  "frame h raw h' \<longleftrightarrow>
     length h \<le> length h'
     \<and> (\<forall>a < length h. set (deref h' a) \<subseteq> set (deref h a))
     \<and> (\<forall>a < length h. raw \<noteq> VDict a \<longrightarrow> deref h' a = deref h a)"

text \<open>A block-typed field that asks for the content only, and a store in which its raw
  value is a mapping without the key \<^verbatim>\<open>content\<close>.\<close>

definition teaser_field :: TemplateField where
  "teaser_field = \<lparr>field_name = ''teaser'', field_type = ''block'', required = True,
      default_value = VNone, validation_rules = None,
      formatting = Some [(''content_only'', VBool True)]\<rparr>"

definition teaser_store :: heap where
  "teaser_store = [[(''teaser'', VDict 1)], [(''type'', VStr ''note'')]]"

text \<open>Two subject records in a store, with the ingredients of the comparison scenario.\<close>

definition two_products :: heap where
  "two_products =
     [[(''name'', VStr ''Serum A''), (''key_ingredients'', VList [VStr ''X'', VStr ''Y''])],
      [(''name'', VStr ''Serum B''), (''key_ingredients'', VList [VStr ''Y'', VStr ''Z''])]]"

text \<open>
  List coercion in the words of the amended claim: the items of the raw value (a text is
  split on commas, the pieces trimmed and the empty ones dropped; a list is taken as it
  is; anything else is wrapped); of these, for \<^verbatim>\<open>max_items = N\<close>, the first \<open>N\<close> when \<open>N\<close>
  is positive, all but the last \<open>|N|\<close> when it is negative, all when it is zero; then, when
  \<^verbatim>\<open>unique\<close> is set, each item kept unless an equal one was seen before.
\<close>

fun spec_dedup :: "val list \<Rightarrow> val list \<Rightarrow> val list" where
  "spec_dedup seen [] = []"
| "spec_dedup seen (x # xs) =
     (if hkey x \<in> set seen then spec_dedup seen xs else x # spec_dedup (hkey x # seen) xs)"

definition spec_items :: "py \<Rightarrow> val \<Rightarrow> val list" where
  "spec_items rt v =
     (case v of
        VStr s \<Rightarrow> map VStr (filter (\<lambda>w. w \<noteq> []) (map (str_strip rt) (split CHR '','' s)))
      | VList xs \<Rightarrow> xs
      | _ \<Rightarrow> [v])"

definition spec_truncate :: "int \<Rightarrow> val list \<Rightarrow> val list" where
  "spec_truncate n items =
     (if n = 0 then items
      else if 0 < n then take (nat n) items
      else rev (drop (nat (- n)) (rev items)))"

definition spec_list_coerce :: "py \<Rightarrow> val \<Rightarrow> int \<Rightarrow> bool \<Rightarrow> val list" where
  "spec_list_coerce rt v n unique =
     (let kept = spec_truncate n (spec_items rt v)
      in if unique then spec_dedup [] kept else kept)"

definition list_field :: "dict \<Rightarrow> TemplateField" where
  "list_field fmt = \<lparr>field_name = ''tags'', field_type = ''list'', required = True,
      default_value = VNone, validation_rules = None, formatting = Some fmt\<rparr>"

text \<open>A subject record as the parser builds it for a product of which only the name is
  known: every attribute is a key, bound to \<^verbatim>\<open>None\<close> or to the empty list.\<close>

definition bare_product :: heap where
  "bare_product =
     [[(''name'', VStr ''GlowBoost''), (''concentration'', VNone), (''skin_types'', VList []),
       (''key_ingredients'', VList []), (''benefits'', VList []),
       (''usage_instructions'', VNone), (''side_effects'', VNone), (''price'', VNone),
       (''category'', VStr ''Skincare'')]]"

text \<open>
  The rule list as the specification words it: the rules in their order of priority, each
  with its keywords, the first rule one of whose keywords occurs in the lowered question,
  and the answer that rule gives.
\<close>

datatype rule = PriceRule | InformationalRule | UsageRule | SafetyRule | SkinTypeRule | FallbackRule






text \<open>What dependency resolution does to the store: it only grows, and among the
  mappings that were there only the enriched copy, at \<open>e\<close>, changes, by gaining blocks.\<close>

definition enriches :: "addr \<Rightarrow> heap \<Rightarrow> heap \<Rightarrow> bool" where
  "enriches e h h' \<longleftrightarrow>
     length h \<le> length h'
     \<and> (\<forall>a < length h. a \<noteq> e \<longrightarrow> deref h' a = deref h a)
     \<and> snd ` set (deref h' e) \<subseteq> snd ` set (deref h e) \<union> range VBlock"

text \<open>A page that shows the first subject without its metadata next to the price
  comparison, and a context for it.\<close>

definition subject_field :: TemplateField where
  "subject_field = \<lparr>field_name = ''product_a_full'', field_type = ''block'', required = True,
      default_value = VNone, validation_rules = None,
      formatting = Some [(''include_metadata'', VBool False)]\<rparr>"

definition prices_field :: TemplateField where
  "prices_field = \<lparr>field_name = ''comparison_prices'', field_type = ''block'', required = True,
      default_value = VNone, validation_rules = None, formatting = None\<rparr>"

definition compare_page :: TemplateDefinition where
  "compare_page = \<lparr>name = ''compare_page'', description = ''a subject and the price comparison'',
      template_fields = [subject_field, prices_field],
      dependencies = Some [''comparison_prices''], output_format = ''json'', metadata = None\<rparr>"

definition compare_store :: heap where
  "compare_store =
     [[(''product_a_full'', VDict 1), (''product_a'', VDict 2), (''product_b'', VDict 3)],
      [(''metadata'', VStr ''draft'')],
      [(''name'', VStr ''Serum A'')],
      [(''name'', VStr ''Serum B'')]]"

text \<open>A page with one block-typed field, and a context that holds itself under the
  name of that field.\<close>

definition self_field :: TemplateField where
  "self_field = \<lparr>field_name = ''self'', field_type = ''block'', required = True,
      default_value = VNone, validation_rules = None,
      formatting = Some [(''include_metadata'', VBool False)]\<rparr>"

definition self_page :: TemplateDefinition where
  "self_page = \<lparr>name = ''self_page'', description = ''a page with one block'',
      template_fields = [self_field], dependencies = None, output_format = ''json'',
      metadata = None\<rparr>"

definition self_store :: heap where
  "self_store = [[(''metadata'', VStr ''draft''), (''self'', VDict 0)]]"

definition engine1 :: TemplateEngine where
  "engine1 = register_template (register_template init compare_page) self_page"

section \<open>Properties\<close>

subsection \<open>Failures of a render call\<close>

text \<open>
  C2. A render call on a registered template, one of whose declared dependencies is neither
  a key of the supplied context nor a registered block generator, raises the error that
  carries the list of the missing names (the declared names, in order, that are in neither);
  no document is returned and the store is as it was before the call: neither the copy of
  the context nor any coercion has happened.
\<close>

theorem unsatisfied_dependency_raised:
  assumes reg: "map_of (templates eng) tname = Some t"
    and deps: "dependencies t = Some deps"
    and dep: "dep \<in> set deps" "\<not> has_key (deref h d) dep" "map_of (block_generators eng) dep = None"
  shows "render_template rt eng h tname d fmt =
           (Inl (UnsatisfiedDependency
                   (filter (\<lambda>x. \<not> has_key (deref h d) x \<and> map_of (block_generators eng) x = None) deps)), h)
         \<and> dep \<in> set (filter (\<lambda>x. \<not> has_key (deref h d) x \<and> map_of (block_generators eng) x = None) deps)"
proof -
  have "missing_deps eng h deps d \<noteq> []"
    using dep by (auto simp: missing_deps_def filter_empty_conv)
  then show ?thesis
    using reg deps dep by (simp add: render_template_def missing_deps_def)
qed

lemma engine0_templates:
  "map_of (templates engine0) ''broken_page'' = Some broken_page"
  "map_of (templates engine0) ''benefits_page'' = Some benefits_page"
  by (simp_all add: engine0_def register_template_def init_def broken_page_def benefits_page_def)

lemma engine0_generators: "block_generators engine0 = default_blocks"
  by (simp add: engine0_def register_template_def init_def)

lemma engine0_renderers: "renderers engine0 = [(''json'', JSONTemplateRenderer)]"
  by (simp add: engine0_def register_template_def init_def)

theorem unsatisfied_dependency_raised_witness:
  "render_template py0 engine0 [[]] ''broken_page'' 0 ''json''
     = (Inl (UnsatisfiedDependency [''nonexistent_block'']), [[]])"
proof -
  have 1: "dependencies broken_page = Some [''nonexistent_block'']" by (simp add: broken_page_def)
  have 2: "''nonexistent_block'' \<in> set [''nonexistent_block'']" by simp
  have 3: "\<not> has_key (deref [[]] 0) ''nonexistent_block''" by (simp add: has_key_def deref_def)
  have 4: "map_of (block_generators engine0) ''nonexistent_block'' = None"
    by (simp add: engine0_generators default_blocks_def)
  from unsatisfied_dependency_raised [OF engine0_templates(1) 1 2 3 4, of py0 "''json''"]
  show ?thesis using 3 4 by simp
qed

text \<open>
  C4 (amended). With a registered template and an output format that has no renderer, the
  dependencies are checked first: the call fails with the list of missing dependencies when
  there is one, and with \<open>RendererNotFound\<close> only when every declared dependency is in
  the context or has a generator.
\<close>

theorem dependencies_checked_before_format:
  assumes reg: "map_of (templates eng) tname = Some t"
    and fmt: "map_of (renderers eng) fmt = None"
  shows "fst (render_template rt eng h tname d fmt) =
           (let missing = (case dependencies t of None \<Rightarrow> []
                           | Some deps \<Rightarrow> filter (\<lambda>x. \<not> has_key (deref h d) x
                                                     \<and> map_of (block_generators eng) x = None) deps)
            in if missing \<noteq> [] then Inl (UnsatisfiedDependency missing)
               else Inl (RendererNotFound fmt))"
  using reg fmt
  by (simp add: render_template_def missing_deps_def Let_def split: option.splits prod.splits)

text \<open>
  The claim C4 as stated fails: a registered template, the unregistered format \<^verbatim>\<open>xml\<close>
  and an unresolvable dependency give \<open>UnsatisfiedDependency\<close>, not \<open>RendererNotFound\<close>.
\<close>

theorem renderer_not_found_first_counterexample:
  "map_of (templates engine0) ''broken_page'' = Some broken_page
   \<and> map_of (renderers engine0) ''xml'' = None
   \<and> dependencies broken_page = Some [''nonexistent_block'']
   \<and> \<not> has_key (deref [[]] 0) ''nonexistent_block''
   \<and> map_of (block_generators engine0) ''nonexistent_block'' = None
   \<and> fst (render_template py0 engine0 [[]] ''broken_page'' 0 ''xml'')
       = Inl (UnsatisfiedDependency [''nonexistent_block''])
   \<and> fst (render_template py0 engine0 [[]] ''broken_page'' 0 ''xml'') \<noteq> Inl (RendererNotFound ''xml'')"
  by (simp add: engine0_templates engine0_renderers engine0_generators default_blocks_def
      render_template_def missing_deps_def has_key_def deref_def broken_page_def)

theorem dependencies_checked_before_format_witness:
  "fst (render_template py0 engine0 [[]] ''benefits_page'' 0 ''xml'') = Inl (RendererNotFound ''xml'')"
proof -
  have 1: "map_of (renderers engine0) ''xml'' = None" by (simp add: engine0_renderers)
  from dependencies_checked_before_format [OF engine0_templates(2) 1, of py0 "[[]]" 0]
  show ?thesis
    by (simp add: benefits_page_def engine0_generators default_blocks_def)
qed

subsection \<open>The store under field coercion\<close>

lemma length_alloc: "alloc h x = (a, h') \<Longrightarrow> a = length h \<and> length h' = Suc (length h)"
  by (auto simp: alloc_def)

lemma deref_alloc_old: "alloc h x = (a, h') \<Longrightarrow> b < length h \<Longrightarrow> deref h' b = deref h b"
  by (auto simp: alloc_def deref_def nth_append)

lemma deref_alloc_new: "alloc h x = (a, h') \<Longrightarrow> deref h' a = x"
  by (auto simp: alloc_def deref_def)

lemma length_store: "length (store h a x) = length h"
  by (simp add: store_def)

lemma deref_store: "deref (store h r x) a = (if a = r \<and> r < length h then x else deref h a)"
  by (auto simp: store_def deref_def)

lemma frame_refl: "frame h raw h"
  by (simp add: frame_def)

lemma frame_alloc: "alloc h x = (a, h') \<Longrightarrow> frame h raw h'"
  by (auto simp: frame_def alloc_def deref_def nth_append)

lemma set_delete_subset: "set (AList.delete k d) \<subseteq> set d"
  by (auto simp: AList.delete_eq)

lemma block_result_frame:
  assumes "block_result rt h v = (r, h1)"
  shows "length h \<le> length h1 \<and> (\<forall>a < length h. deref h1 a = deref h a)
         \<and> (r < length h \<longrightarrow> v = VDict r)"
  using assms
  by (auto simp: block_result_def alloc_def deref_def nth_append Let_def
           split: val.splits if_splits prod.splits)

lemma process_block_field_frame:
  assumes "process_block_field rt h v fmt = (res, h')"
  shows "frame h v h'"
proof -
  obtain r h1 where br: "block_result rt h v = (r, h1)" by (cases "block_result rt h v")
  note fr = block_result_frame [OF br]
  have st: "frame h v (store h1 r (AList.delete ''metadata'' (deref h1 r)))"
    using fr set_delete_subset [of "''metadata''" "deref h1 r"]
    by (auto simp: frame_def length_store deref_store)
  have id: "frame h v h1" using fr by (auto simp: frame_def)
  from assms br st id show ?thesis
    by (auto simp: process_block_field_def Let_def split: if_splits option.splits)
qed

lemma process_field_frame:
  assumes "process_field rt h f d = (res, h')"
  shows "frame h (raw_value h f d) h'"
  using assms
  by (auto simp: process_field_def Let_def process_structured_field_def frame_refl
           intro: process_block_field_frame frame_alloc
           split: if_splits val.splits prod.splits)

subsection \<open>Fields whose raw value is absent\<close>

lemma raw_value_absent:
  "\<not> has_key (deref h d) (field_name f) \<Longrightarrow> default_value f = VNone \<Longrightarrow> raw_value h f d = VNone"
  by (simp add: raw_value_def has_key_def)

lemma process_field_absent:
  "raw_value h f d = VNone \<Longrightarrow> process_field rt h f d = (Inr VNone, h)"
  by (simp add: process_field_def)

lemma has_key_mono:
  "set d' \<subseteq> set d \<Longrightarrow> has_key d' k \<Longrightarrow> has_key d k"
  by (auto simp: has_key_def dest!: map_of_SomeD intro: weak_map_of_SomeI
      simp: map_of_eq_None_iff image_iff)

lemma has_key_update: "has_key (AList.update k v acc) n \<longleftrightarrow> n = k \<or> has_key acc n"
  by (simp add: has_key_def update_conv')

lemma absent_preserved:
  assumes "process_field rt h f d = (res, h')" "d < length h" "\<not> has_key (deref h d) n"
  shows "d < length h' \<and> \<not> has_key (deref h' d) n"
  using process_field_frame [OF assms(1)] assms(2,3) has_key_mono [of "deref h' d" "deref h d" n]
  by (auto simp: frame_def)

lemma required_absent_omitted:
  assumes "render_fields rt h d fs acc = (Inr c, h')" "d < length h"
    and "\<not> has_key (deref h d) n" "\<not> has_key acc n"
    and "\<forall>f \<in> set fs. field_name f = n \<longrightarrow> default_value f = VNone \<and> required f"
  shows "\<not> has_key c n"
  using assms
proof (induction fs arbitrary: h acc)
  case Nil
  then show ?case by simp
next
  case (Cons f fs)
  obtain r h1 where pf: "process_field rt h f d = (r, h1)" by (cases "process_field rt h f d")
  with Cons.prems(1) obtain v where r: "r = Inr v" by (cases r) auto
  note ap = absent_preserved [OF pf Cons.prems(2,3)]
  let ?acc = "if v \<noteq> VNone \<or> \<not> required f then AList.update (field_name f) v acc else acc"
  have rf: "render_fields rt h1 d fs ?acc = (Inr c, h')"
    using Cons.prems(1) pf r by simp
  have "\<not> has_key ?acc n"
  proof (cases "field_name f = n")
    case True
    with Cons.prems(5) have "default_value f = VNone" "required f" by auto
    with True Cons.prems(3) have "raw_value h f d = VNone" by (simp add: raw_value_absent)
    with pf r have "v = VNone" by (simp add: process_field_absent)
    with \<open>required f\<close> Cons.prems(4) show ?thesis by simp
  next
    case False
    with Cons.prems(4) show ?thesis by (simp add: has_key_update)
  qed
  with Cons.IH [OF rf] ap Cons.prems(5) show ?case by simp
qed

lemma other_fields_keep:
  assumes "render_fields rt h d fs acc = (Inr c, h')"
    and "map_of acc n = Some v" "n \<notin> field_name ` set fs"
  shows "map_of c n = Some v"
  using assms
proof (induction fs arbitrary: h acc)
  case Nil
  then show ?case by simp
next
  case (Cons f fs)
  obtain r h1 where pf: "process_field rt h f d = (r, h1)" by (cases "process_field rt h f d")
  with Cons.prems(1) obtain w where r: "r = Inr w" by (cases r) auto
  let ?acc = "if w \<noteq> VNone \<or> \<not> required f then AList.update (field_name f) w acc else acc"
  have rf: "render_fields rt h1 d fs ?acc = (Inr c, h')"
    using Cons.prems(1) pf r by simp
  have "map_of ?acc n = Some v" using Cons.prems(2,3) by (simp add: update_conv')
  with Cons.IH [OF rf] Cons.prems(3) show ?case by simp
qed

lemma optional_absent_null:
  assumes "render_fields rt h d fs acc = (Inr c, h')" "d < length h"
    and "f \<in> set fs" "\<not> has_key (deref h d) (field_name f)"
    and "default_value f = VNone" "\<not> required f" "distinct (map field_name fs)"
  shows "map_of c (field_name f) = Some VNone"
  using assms
proof (induction fs arbitrary: h acc)
  case Nil
  then show ?case by simp
next
  case (Cons g fs)
  obtain r h1 where pf: "process_field rt h g d = (r, h1)" by (cases "process_field rt h g d")
  with Cons.prems(1) obtain w where r: "r = Inr w" by (cases r) auto
  let ?acc = "if w \<noteq> VNone \<or> \<not> required g then AList.update (field_name g) w acc else acc"
  have rf: "render_fields rt h1 d fs ?acc = (Inr c, h')"
    using Cons.prems(1) pf r by simp
  note ap = absent_preserved [OF pf Cons.prems(2,4)]
  show ?case
  proof (cases "g = f")
    case True
    with Cons.prems have "raw_value h g d = VNone" by (simp add: raw_value_absent)
    with pf r have "w = VNone" by (simp add: process_field_absent)
    with True Cons.prems(6) have "map_of ?acc (field_name f) = Some VNone"
      by (simp add: update_conv')
    moreover have "field_name f \<notin> field_name ` set fs" using True Cons.prems(7) by simp
    ultimately show ?thesis using other_fields_keep [OF rf] by simp
  next
    case False
    with Cons.prems(3) have "f \<in> set fs" by simp
    with Cons.IH [OF rf] ap Cons.prems(5,6,7) show ?thesis by simp
  qed
qed

text \<open>
  C1 (amended). In a template whose field names are distinct, a field with no default whose
  name is not a key of the render data is left out of the content mapping when it is
  required, and is a key of the content mapping, bound to \<^verbatim>\<open>None\<close>, when it is not
  required.
\<close>

theorem absent_field_emission:
  assumes "render rt h t d = (Inr doc, h')" "d < length h"
    and "f \<in> set (template_fields t)" "distinct (map field_name (template_fields t))"
    and "default_value f = VNone" "\<not> has_key (deref h d) (field_name f)"
  shows "if required f then \<not> has_key (doc_content doc) (field_name f)
         else map_of (doc_content doc) (field_name f) = Some VNone"
proof -
  from assms(1) obtain c where rf: "render_fields rt h d (template_fields t) [] = (Inr c, h')"
    and c: "doc_content doc = c"
    by (auto simp: render_def split: prod.splits sum.splits)
  show ?thesis
  proof (cases "required f")
    case True
    have "\<forall>g \<in> set (template_fields t). field_name g = field_name f \<longrightarrow> default_value g = VNone \<and> required g"
    proof (intro ballI impI)
      fix g assume "g \<in> set (template_fields t)" "field_name g = field_name f"
      with assms(3,4) have "g = f" by (metis distinct_map inj_on_def)
      with True assms(5) show "default_value g = VNone \<and> required g" by simp
    qed
    with required_absent_omitted [OF rf assms(2) assms(6)] True c show ?thesis
      by (simp add: has_key_def)
  next
    case False
    with optional_absent_null [OF rf assms(2,3,6,5) _ assms(4)] c show ?thesis by simp
  qed
qed

lemma render_notes_page:
  "render py0 [[]] notes_page 0
     = (Inr \<lparr>template_name = ''notes_page'', doc_metadata = [],
              doc_content = [(''notes'', VNone)]\<rparr>, [[]])"
  by (simp add: render_def notes_page_def notes_field_def summary_field_def process_field_def
      raw_value_def deref_def)

text \<open>
  The claim C1 as stated fails for \<^verbatim>\<open>required=False\<close>: the optional field \<^verbatim>\<open>notes\<close> has no
  default and no raw value, and its name is a key of the rendered content.
\<close>

theorem optional_field_omitted_counterexample:
  "default_value notes_field = VNone \<and> \<not> required notes_field
   \<and> \<not> has_key (deref [[]] 0) (field_name notes_field)
   \<and> render py0 [[]] notes_page 0
       = (Inr \<lparr>template_name = ''notes_page'', doc_metadata = [],
                doc_content = [(''notes'', VNone)]\<rparr>, [[]])
   \<and> has_key [(''notes'', VNone)] (field_name notes_field)"
  by (simp add: render_notes_page notes_field_def has_key_def deref_def)

theorem absent_field_emission_witness:
  "\<not> has_key [(''notes'', VNone)] (field_name summary_field)
   \<and> map_of [(''notes'', VNone)] (field_name notes_field) = Some VNone"
proof -
  have 1: "(0::nat) < length [[] :: dict]" by simp
  have 2: "summary_field \<in> set (template_fields notes_page)"
    "notes_field \<in> set (template_fields notes_page)" by (simp_all add: notes_page_def)
  have 3: "distinct (map field_name (template_fields notes_page))"
    by (simp add: notes_page_def notes_field_def summary_field_def)
  have 4: "default_value summary_field = VNone" "default_value notes_field = VNone"
    by (simp_all add: notes_field_def summary_field_def)
  have 5: "\<not> has_key (deref [[]] 0) (field_name summary_field)"
    "\<not> has_key (deref [[]] 0) (field_name notes_field)" by (simp_all add: has_key_def deref_def)
  have 6: "required summary_field" "\<not> required notes_field"
    by (simp_all add: notes_field_def summary_field_def)
  from absent_field_emission [OF render_notes_page 1 2(1) 3 4(1) 5(1)]
       absent_field_emission [OF render_notes_page 1 2(2) 3 4(2) 5(2)] 6
  show ?thesis by simp
qed

subsection \<open>Coercion of block-typed fields\<close>

text \<open>
  C3. Coercion is not total on the code: a block-typed field with \<^verbatim>\<open>content_only\<close> set,
  given the mapping \<^verbatim>\<open>{"type": "note"}\<close>, raises \<^verbatim>\<open>KeyError('content')\<close>, and the
  render call that coerces this field fails with it.
\<close>

theorem block_field_content_only_raises:
  "process_field py0 teaser_store teaser_field 0 = (Inl (KeyError ''content''), teaser_store)
   \<and> render py0 teaser_store
        \<lparr>name = ''teaser_page'', description = [], template_fields = [teaser_field],
         dependencies = None, output_format = ''json'', metadata = None\<rparr> 0
       = (Inl (KeyError ''content''), teaser_store)"
  by (simp add: render_def process_field_def raw_value_def teaser_store_def teaser_field_def
      deref_def process_block_field_def block_result_def fmt_set_def fmt_get_def)

subsection \<open>Sequencing of fallible steps\<close>

lemma and_then_Inr [simp]: "and_then (Inr x) f = f x"
  by (simp add: and_then_def)

lemma and_then_Inl [simp]: "and_then (Inl e) f = Inl e"
  by (simp add: and_then_def)

lemma get_dict: "get h (VDict a) k dflt = Inr (case map_of (deref h a) k of None \<Rightarrow> dflt | Some v \<Rightarrow> v)"
  by (simp add: get_def)

subsection \<open>Comparison of ingredients\<close>

lemma hkey_VStr_image: "hkey ` VStr ` S = VStr ` S"
  by (auto simp: image_iff)

lemma first_seen_subset: "set (first_seen zs) \<subseteq> set zs"
proof (induction zs rule: first_seen.induct)
  case 1
  show ?case by simp
next
  case (2 x xs)
  then show ?case by auto
qed

lemma first_seen_keys: "hkey ` set (first_seen zs) = hkey ` set zs"
proof (induction zs rule: first_seen.induct)
  case 1
  show ?case by simp
next
  case (2 x xs)
  have "hkey ` set (x # xs) = insert (hkey x) (hkey ` set (filter (\<lambda>y. hkey y \<noteq> hkey x) xs))"
    by auto
  with 2 show ?case by simp
qed

lemma first_seen_distinct: "distinct (map hkey (first_seen zs))"
proof (induction zs rule: first_seen.induct)
  case 1
  show ?case by simp
next
  case (2 x xs)
  have "hkey x \<notin> hkey ` set (first_seen (filter (\<lambda>y. hkey y \<noteq> hkey x) xs))"
    unfolding first_seen_keys by auto
  with 2 show ?case by simp
qed

lemma first_seen_strs:
  "set (first_seen (map VStr xs)) = VStr ` set xs" "distinct (first_seen (map VStr xs))"
proof -
  have "hkey ` set (first_seen (map VStr xs)) = VStr ` set xs"
    by (simp add: first_seen_keys hkey_VStr_image)
  moreover have "hkey ` set (first_seen (map VStr xs)) = set (first_seen (map VStr xs))"
    using first_seen_subset [of "map VStr xs"] by (force simp: image_iff)
  ultimately show "set (first_seen (map VStr xs)) = VStr ` set xs" by simp
  show "distinct (first_seen (map VStr xs))"
    using first_seen_distinct [of "map VStr xs"] by (simp add: distinct_map)
qed

lemma py_set_strs: "py_set rt h (VList (map VStr xs)) = Inr (first_seen (map VStr xs))"
  by (simp add: py_set_def iterate_def fromkeys_def list_all_iff)

lemma card_VStr: "card (VStr ` S) = card S"
  by (rule card_image) (simp add: inj_on_def)

lemma length_intersection:
  "length (intersection (first_seen (map VStr xs)) (first_seen (map VStr ys))) = card (set xs \<inter> set ys)"
proof -
  have "{x. hkey x \<in> hkey ` VStr ` set ys} \<inter> VStr ` set xs = VStr ` (set xs \<inter> set ys)"
    by (auto simp: image_iff)
  then show ?thesis
    by (simp add: intersection_def distinct_length_filter first_seen_strs card_VStr)
qed

lemma length_difference:
  "length (difference (first_seen (map VStr xs)) (first_seen (map VStr ys))) = card (set xs - set ys)"
proof -
  have "{x. hkey x \<notin> hkey ` VStr ` set ys} \<inter> VStr ` set xs = VStr ` (set xs - set ys)"
    by (auto simp: image_iff)
  then show ?thesis
    by (simp add: difference_def distinct_length_filter first_seen_strs card_VStr)
qed

lemma the_strs_map: "the_strs (map VStr ss) = Inr ss"
  by (induction ss) simp_all

lemma the_strs_all:
  assumes "set zs \<subseteq> range VStr"
  shows "\<exists>ss. the_strs zs = Inr ss"
proof -
  from assms have "\<exists>ss. zs = map VStr ss"
    by (induction zs) (auto simp: Cons_eq_map_conv)
  then show ?thesis by (auto simp: the_strs_map)
qed

lemma part_strs:
  assumes perm: "\<forall>zs. set (set_order rt zs) = set zs \<and> length (set_order rt zs) = length zs"
    and "set members \<subseteq> range VStr"
  shows "\<exists>p. part rt h members (Inr l) = Inr p"
proof -
  from assms have "set (set_order rt members) \<subseteq> range VStr" by simp
  from the_strs_all [OF this] show ?thesis by (auto simp: part_def join_items_def)
qed

lemma part_single:
  assumes perm: "\<forall>zs. set (set_order rt zs) = set zs \<and> length (set_order rt zs) = length zs"
  shows "part rt h [VStr s] (Inr l) = Inr [l @ '' '' @ s]"
proof -
  from perm have "set (set_order rt [VStr s]) = {VStr s}" "length (set_order rt [VStr s]) = 1"
    by simp_all
  then have "set_order rt [VStr s] = [VStr s]"
    by (cases "set_order rt [VStr s]") auto
  then show ?thesis by (simp add: part_def join_items_def)
qed

lemma intersection_strs: "set (intersection A B) \<subseteq> set A"
  and difference_strs: "set (difference A B) \<subseteq> set A"
  by (auto simp: intersection_def difference_def)

lemma name_of_present:
  "map_of (deref h a) ''name'' = Some n \<Longrightarrow> name_of rt h (VDict a) = Inr (py_str rt h n)"
  by (simp add: name_of_def item_def)

text \<open>
  C5. For two subject records whose key ingredients are lists of strings and that carry a
  name, the comparison-ingredients generator returns a block whose facts are the size of
  the intersection of the two ingredient sets and the sizes of the two set differences.
  With ingredients X, Y against Y, Z the text names X only after the first product's name
  and Z only after the second's. The order in which Python iterates a set may be any.
\<close>

theorem comparison_ingredient_counts:
  assumes perm: "\<forall>zs. set (set_order rt zs) = set zs \<and> length (set_order rt zs) = length zs"
    and ia: "get h (VDict a) ''key_ingredients'' (VList []) = Inr (VList (map VStr xs))"
    and ib: "get h (VDict b) ''key_ingredients'' (VList []) = Inr (VList (map VStr ys))"
    and na: "map_of (deref h a) ''name'' = Some name_a"
    and nb: "map_of (deref h b) ''name'' = Some name_b"
  shows "\<exists>text.
           compare_ingredients rt h (VDict a) (VDict b)
             = Inr (ContentBlock (VStr ''ingredient_comparison'') (VStr text) (VDict (length h)),
                    h @ [[(''common_ingredients'', VInt (int (card (set xs \<inter> set ys)))),
                          (''unique_a'', VInt (int (card (set xs - set ys)))),
                          (''unique_b'', VInt (int (card (set ys - set xs))))]])
           \<and> (xs = [''X'', ''Y''] \<and> ys = [''Y'', ''Z''] \<longrightarrow>
                text = ''Both products contain Y. '' @ py_str rt h name_a
                       @ '' uniquely features X. '' @ py_str rt h name_b
                       @ '' uniquely features Z.'')"
proof -
  let ?A = "first_seen (map VStr xs)" and ?B = "first_seen (map VStr ys)"
  let ?la = "Inr (py_str rt h name_a @ '' uniquely features'') :: error + string"
  let ?lb = "Inr (py_str rt h name_b @ '' uniquely features'') :: error + string"
  have A: "set ?A \<subseteq> range VStr" and B: "set ?B \<subseteq> range VStr"
    by (auto simp: first_seen_strs)
  obtain p1 where p1: "part rt h (intersection ?A ?B) (Inr ''Both products contain'') = Inr p1"
    using part_strs [OF perm] intersection_strs [of ?A ?B] A by (meson subset_trans)
  obtain p2 where p2: "part rt h (difference ?A ?B) ?la = Inr p2"
    using part_strs [OF perm] difference_strs [of ?A ?B] A by (meson subset_trans)
  obtain p3 where p3: "part rt h (difference ?B ?A) ?lb = Inr p3"
    using part_strs [OF perm] difference_strs [of ?B ?A] B by (meson subset_trans)
  let ?text = "sentence (p1 @ p2 @ p3) ''Both products have distinct ingredient formulations.''"
  have run: "compare_ingredients rt h (VDict a) (VDict b)
             = Inr (ContentBlock (VStr ''ingredient_comparison'') (VStr ?text) (VDict (length h)),
                    h @ [[(''common_ingredients'', VInt (int (card (set xs \<inter> set ys)))),
                          (''unique_a'', VInt (int (card (set xs - set ys)))),
                          (''unique_b'', VInt (int (card (set ys - set xs))))]])"
    unfolding compare_ingredients_def compare_sets_def
    by (simp add: ia ib py_set_strs Let_def p1 p2 p3 name_of_present [OF na] name_of_present [OF nb]
        mk_block_def alloc_def length_intersection length_difference)
  have scen: "?text = ''Both products contain Y. '' @ py_str rt h name_a
                       @ '' uniquely features X. '' @ py_str rt h name_b
                       @ '' uniquely features Z.''"
    if "xs = [''X'', ''Y'']" "ys = [''Y'', ''Z'']"
  proof -
    have "intersection ?A ?B = [VStr ''Y'']" "difference ?A ?B = [VStr ''X'']"
      "difference ?B ?A = [VStr ''Z'']"
      using that by (simp_all add: intersection_def difference_def)
    with p1 p2 p3 have "p1 = [''Both products contain Y'']"
      "p2 = [py_str rt h name_a @ '' uniquely features X'']"
      "p3 = [py_str rt h name_b @ '' uniquely features Z'']"
      by (simp_all add: part_single [OF perm])
    then show ?thesis by (simp add: sentence_def)
  qed
  from run scen show ?thesis by blast
qed

theorem comparison_ingredient_counts_witness:
  "compare_ingredients py0 two_products (VDict 0) (VDict 1)
     = Inr (ContentBlock (VStr ''ingredient_comparison'')
              (VStr ''Both products contain Y. Serum A uniquely features X. Serum B uniquely features Z.'')
              (VDict 2),
            two_products @ [[(''common_ingredients'', VInt 1), (''unique_a'', VInt 1),
                             (''unique_b'', VInt 1)]])"
proof -
  have perm: "\<forall>zs. set (set_order py0 zs) = set zs \<and> length (set_order py0 zs) = length zs"
    by (simp add: py0_def)
  have ia: "get two_products (VDict 0) ''key_ingredients'' (VList []) = Inr (VList (map VStr [''X'', ''Y'']))"
    and ib: "get two_products (VDict 1) ''key_ingredients'' (VList []) = Inr (VList (map VStr [''Y'', ''Z'']))"
    by (simp_all add: get_def deref_def two_products_def)
  have na: "map_of (deref two_products 0) ''name'' = Some (VStr ''Serum A'')"
    and nb: "map_of (deref two_products 1) ''name'' = Some (VStr ''Serum B'')"
    by (simp_all add: deref_def two_products_def)
  have c: "card (set [''X'', ''Y''] \<inter> set [''Y'', ''Z'']) = 1"
    "card (set [''X'', ''Y''] - set [''Y'', ''Z'']) = 1"
    "card (set [''Y'', ''Z''] - set [''X'', ''Y'']) = 1"
    by simp_all
  have l: "length two_products = 2" by (simp add: two_products_def)
  from comparison_ingredient_counts [OF perm ia ib na nb]
  show ?thesis unfolding c l by auto
qed

subsection \<open>List coercion\<close>

lemma first_seen_filter:
  "first_seen (filter (\<lambda>y. hkey y \<notin> set seen) xs) = spec_dedup seen xs"
proof (induction xs arbitrary: seen)
  case Nil
  show ?case by simp
next
  case (Cons x xs)
  have eq: "filter (\<lambda>y. hkey y \<noteq> hkey x) (filter (\<lambda>y. hkey y \<notin> set seen) xs)
            = filter (\<lambda>y. hkey y \<notin> set (hkey x # seen)) xs"
    by (induction xs) auto
  show ?case using Cons.IH [of seen] Cons.IH [of "hkey x # seen"] eq by simp
qed

lemma first_seen_spec: "first_seen xs = spec_dedup [] xs"
  using first_seen_filter [of "[]" xs] by simp

lemma as_items_spec: "as_items rt v = spec_items rt v"
  by (simp add: as_items_def str_items_def spec_items_def filter_map comp_def split: val.splits)

lemma slice_to_spec:
  assumes "n \<noteq> 0"
  shows "slice_to xs n = spec_truncate n xs"
proof (cases "0 < n")
  case True
  then show ?thesis by (simp add: slice_to_def spec_truncate_def)
next
  case False
  with assms have "n < 0" by simp
  then have "nat (int (length xs) + n) = length xs - nat (- n)" by arith
  with \<open>n < 0\<close> show ?thesis by (simp add: slice_to_def spec_truncate_def drop_rev)
qed

text \<open>
  C6 (amended). A list-typed field given a raw value: a text is split on commas, the pieces
  trimmed and the empty ones dropped, a value that is neither a list nor a text is wrapped
  as a one-element list; then, \<^verbatim>\<open>max_items\<close> being an integer \<open>N\<close> (zero when it is not
  set), a positive \<open>N\<close> keeps the first \<open>N\<close> items, a negative \<open>N\<close> drops the last \<open>|N|\<close>
  and zero keeps them all; and a set \<^verbatim>\<open>unique\<close> removes duplicates from hashable items,
  keeping the first occurrence of each in its place.
\<close>

theorem list_field_coercion:
  assumes ty: "field_type f = ''list''"
    and raw: "raw_value h f d = v" "v \<noteq> VNone"
    and mi: "fmt_get (formatting f) ''max_items'' = VInt n
             \<or> fmt_get (formatting f) ''max_items'' = VNone \<and> n = 0"
    and un: "truthy h (fmt_get (formatting f) ''unique'') = unique"
    and hb: "unique \<longrightarrow> list_all hashable (spec_truncate n (spec_items rt v))"
  shows "process_field rt h f d = (Inr (VList (spec_list_coerce rt v n unique)), h)"
proof -
  let ?fmt = "formatting f"
  let ?kept = "spec_truncate n (spec_items rt v)"
  have pf: "process_field rt h f d = (process_list_field rt h v ?fmt, h)"
    using ty raw by (simp add: process_field_def)
  have spec: "spec_list_coerce rt v n unique = (if unique then spec_dedup [] ?kept else ?kept)"
    by (simp add: spec_list_coerce_def Let_def)
  have plf: "process_list_field rt h v ?fmt
               = Inr (VList (if unique then spec_dedup [] ?kept else ?kept))"
  proof (cases "fmt_set ?fmt")
    case False
    then have "fmt_get ?fmt ''max_items'' = VNone" "fmt_get ?fmt ''unique'' = VNone"
      by (auto simp: fmt_set_def fmt_get_def split: option.splits)
    with mi un have "n = 0" "\<not> unique" by auto
    with False show ?thesis
      by (simp add: process_list_field_def as_items_spec spec_truncate_def)
  next
    case True
    have trunc: "(if truthy h (fmt_get ?fmt ''max_items'')
               then (case as_index (fmt_get ?fmt ''max_items'') of
                       Inl e \<Rightarrow> Inl e | Inr k \<Rightarrow> Inr (slice_to (as_items rt v) k))
               else Inr (as_items rt v)) = Inr ?kept"
    proof (cases "n = 0")
      case True
      with mi have "\<not> truthy h (fmt_get ?fmt ''max_items'')" by auto
      with True show ?thesis by (simp add: as_items_spec spec_truncate_def)
    next
      case False
      with mi have "fmt_get ?fmt ''max_items'' = VInt n" by auto
      with False show ?thesis by (simp add: as_index_def as_items_spec slice_to_spec)
    qed
    show ?thesis
    proof (cases unique)
      case False
      with True trunc un show ?thesis by (simp add: process_list_field_def Let_def)
    next
      case u: True
      with hb have "fromkeys ?kept = Inr (spec_dedup [] ?kept)"
        by (simp add: fromkeys_def first_seen_spec)
      with u True trunc un show ?thesis by (simp add: process_list_field_def Let_def)
    qed
  qed
  show ?thesis unfolding pf plf spec ..
qed

lemma ascii_strip_examples:
  "ascii_strip ''A'' = ''A''" "ascii_strip '' B'' = ''B''" "ascii_strip '' C'' = ''C''"
  by (simp_all add: ascii_strip_def ascii_space_def)

lemma split_examples:
  "split CHR '','' ''A, B, B, C'' = [''A'', '' B'', '' B'', '' C'']"
  "split CHR '','' ''A, B, C'' = [''A'', '' B'', '' C'']"
  by simp_all

lemma py0_strip: "str_strip py0 = ascii_strip"
  by (simp add: py0_def)

lemma spec_items_examples:
  "spec_items py0 (VStr ''A, B, B, C'') = [VStr ''A'', VStr ''B'', VStr ''B'', VStr ''C'']"
  "spec_items py0 (VStr ''A, B, C'') = [VStr ''A'', VStr ''B'', VStr ''C'']"
  by (simp_all add: spec_items_def split_examples py0_strip ascii_strip_examples)

text \<open>
  The claim C6 as stated fails on three inputs: \<^verbatim>\<open>max_items = 0\<close> keeps every item, not
  the first none; \<^verbatim>\<open>max_items = -1\<close> keeps all but the last item; and \<^verbatim>\<open>unique\<close> on a
  list that holds a mapping raises \<^verbatim>\<open>TypeError\<close> instead of removing duplicates.
\<close>

theorem list_field_coercion_counterexample:
  "process_field py0 [[(''tags'', VStr ''A, B, C'')]] (list_field [(''max_items'', VInt 0)]) 0
     = (Inr (VList [VStr ''A'', VStr ''B'', VStr ''C'']), [[(''tags'', VStr ''A, B, C'')]])
   \<and> process_field py0 [[(''tags'', VStr ''A, B, C'')]] (list_field [(''max_items'', VInt (- 1))]) 0
     = (Inr (VList [VStr ''A'', VStr ''B'']), [[(''tags'', VStr ''A, B, C'')]])
   \<and> process_field py0 [[(''tags'', VList [VDict 1, VDict 1])], []]
        (list_field [(''unique'', VBool True)]) 0
     = (Inl TypeError, [[(''tags'', VList [VDict 1, VDict 1])], []])"
proof (intro conjI)
  show "process_field py0 [[(''tags'', VStr ''A, B, C'')]] (list_field [(''max_items'', VInt 0)]) 0
     = (Inr (VList [VStr ''A'', VStr ''B'', VStr ''C'']), [[(''tags'', VStr ''A, B, C'')]])"
    by (simp add: process_field_def raw_value_def deref_def list_field_def process_list_field_def
        fmt_set_def fmt_get_def as_items_spec spec_items_examples)
  show "process_field py0 [[(''tags'', VStr ''A, B, C'')]] (list_field [(''max_items'', VInt (- 1))]) 0
     = (Inr (VList [VStr ''A'', VStr ''B'']), [[(''tags'', VStr ''A, B, C'')]])"
    by (simp add: process_field_def raw_value_def deref_def list_field_def process_list_field_def
        fmt_set_def fmt_get_def as_items_spec spec_items_examples as_index_def slice_to_def)
  show "process_field py0 [[(''tags'', VList [VDict 1, VDict 1])], []]
        (list_field [(''unique'', VBool True)]) 0
     = (Inl TypeError, [[(''tags'', VList [VDict 1, VDict 1])], []])"
    by (simp add: process_field_def raw_value_def deref_def list_field_def process_list_field_def
        fmt_set_def fmt_get_def as_items_def fromkeys_def)
qed

theorem list_field_coercion_witness:
  "process_field py0 [[(''tags'', VStr ''A, B, B, C'')]] (list_field [(''unique'', VBool True)]) 0
     = (Inr (VList [VStr ''A'', VStr ''B'', VStr ''C'']), [[(''tags'', VStr ''A, B, B, C'')]])"
proof -
  let ?h = "[[(''tags'', VStr ''A, B, B, C'')]]"
  let ?f = "list_field [(''unique'', VBool True)]"
  have 1: "field_type ?f = ''list''" by (simp add: list_field_def)
  have 2: "raw_value ?h ?f 0 = VStr ''A, B, B, C''"
    by (simp add: raw_value_def deref_def list_field_def)
  have 3: "fmt_get (formatting ?f) ''max_items'' = VInt 0
           \<or> fmt_get (formatting ?f) ''max_items'' = VNone \<and> (0::int) = 0"
    by (simp add: fmt_get_def list_field_def)
  have 4: "truthy ?h (fmt_get (formatting ?f) ''unique'') = True"
    by (simp add: fmt_get_def list_field_def)
  have 5: "True \<longrightarrow> list_all hashable (spec_truncate 0 (spec_items py0 (VStr ''A, B, B, C'')))"
    by (simp add: spec_truncate_def spec_items_examples)
  have 6: "spec_list_coerce py0 (VStr ''A, B, B, C'') 0 True = [VStr ''A'', VStr ''B'', VStr ''C'']"
    by (simp add: spec_list_coerce_def spec_truncate_def spec_items_examples)
  from list_field_coercion [OF 1 2 _ 3 4 5]
  show ?thesis by (simp add: 6)
qed

subsection \<open>Single-subject blocks on a record that misses the attribute\<close>

text \<open>
  C7. A subject record misses a list attribute when the key is absent or bound to the empty
  list, and an optional attribute when the key is absent or bound to \<^verbatim>\<open>None\<close> (or any
  other false value). On such a record each of the six single-subject generators returns a
  block (it does not raise) whose text says that the information is not provided (not
  specified, for the skin types), with the product name taken from the record or
  \<^verbatim>\<open>this product\<close>. (A list attribute bound to \<^verbatim>\<open>None\<close>, which the record type of the
  specification excludes and neither the parser nor the competitor agent produces, makes
  \<^verbatim>\<open>len\<close> raise.)
\<close>

theorem missing_attribute_block:
  assumes "product_name = py_str rt h (case map_of (deref h a) ''name'' of
                                          None \<Rightarrow> VStr ''this product'' | Some n \<Rightarrow> n)"
  shows "(map_of (deref h a) ''benefits'' \<in> {None, Some (VList [])} \<longrightarrow>
            BenefitsBlock_generate rt h (VDict a)
              = Inr (ContentBlock (VStr ''benefits'')
                       (VStr (''Benefits for '' @ product_name @ '' are not provided.''))
                       (VDict (length h)),
                     h @ [[(''benefit_count'', VInt 0)]]))
       \<and> (\<not> truthy h (case map_of (deref h a) ''usage_instructions'' of
                           None \<Rightarrow> VNone | Some v \<Rightarrow> v) \<longrightarrow>
            UsageBlock_generate rt h (VDict a)
              = Inr (ContentBlock (VStr ''usage'')
                       (VStr (''Usage instructions for '' @ product_name @ '' are not provided.''))
                       (VDict (length h)),
                     h @ [[(''has_instructions'', VBool False)]]))
       \<and> (map_of (deref h a) ''key_ingredients'' \<in> {None, Some (VList [])} \<longrightarrow>
            IngredientsBlock_generate rt h (VDict a) detailed
              = Inr (ContentBlock (VStr ''ingredients'')
                       (VStr (''Key ingredients for '' @ product_name @ '' are not provided.''))
                       (VDict (length h)),
                     h @ [[(''ingredient_count'', VInt 0), (''detailed'', detailed)]]))
       \<and> (\<not> truthy h (case map_of (deref h a) ''side_effects'' of
                           None \<Rightarrow> VNone | Some v \<Rightarrow> v) \<longrightarrow>
            SafetyBlock_generate rt h (VDict a)
              = Inr (ContentBlock (VStr ''safety'')
                       (VStr (''Side effects information for '' @ product_name @ '' is not provided.''))
                       (VDict (length h)),
                     h @ [[(''has_warnings'', VBool False)]]))
       \<and> (map_of (deref h a) ''skin_types'' \<in> {None, Some (VList [])} \<longrightarrow>
            SkinTypeBlock_generate rt h (VDict a)
              = Inr (ContentBlock (VStr ''skin_type'')
                       (VStr (''Suitable skin types for '' @ product_name @ '' are not specified.''))
                       (VDict (length h)),
                     h @ [[(''skin_type_count'', VInt 0)]]))
       \<and> (\<not> truthy h (case map_of (deref h a) ''price'' of
                           None \<Rightarrow> VNone | Some v \<Rightarrow> v) \<longrightarrow>
            PriceBlock_generate rt h (VDict a)
              = Inr (ContentBlock (VStr ''price'')
                       (VStr (''Price for '' @ product_name @ '' is not provided.''))
                       (VDict (length h)),
                     h @ [[(''has_price'', VBool False)]]))"
proof (intro conjI impI)
  assume "map_of (deref h a) ''benefits'' \<in> {None, Some (VList [])}"
  then have "get h (VDict a) ''benefits'' (VList []) = Inr (VList [])"
    by (auto simp: get_dict)
  then show "BenefitsBlock_generate rt h (VDict a)
              = Inr (ContentBlock (VStr ''benefits'')
                       (VStr (''Benefits for '' @ product_name @ '' are not provided.''))
                       (VDict (length h)),
                     h @ [[(''benefit_count'', VInt 0)]])"
    using assms
    by (simp add: BenefitsBlock_generate_def get_dict [of h a "''name''"] len_def mk_block_def alloc_def)
next
  assume "\<not> truthy h (case map_of (deref h a) ''usage_instructions'' of None \<Rightarrow> VNone | Some v \<Rightarrow> v)"
  then show "UsageBlock_generate rt h (VDict a)
              = Inr (ContentBlock (VStr ''usage'')
                       (VStr (''Usage instructions for '' @ product_name @ '' are not provided.''))
                       (VDict (length h)),
                     h @ [[(''has_instructions'', VBool False)]])"
    using assms
    by (simp add: UsageBlock_generate_def get_dict mk_block_def alloc_def)
next
  assume "map_of (deref h a) ''key_ingredients'' \<in> {None, Some (VList [])}"
  then have "get h (VDict a) ''key_ingredients'' (VList []) = Inr (VList [])"
    by (auto simp: get_dict)
  then show "IngredientsBlock_generate rt h (VDict a) detailed
              = Inr (ContentBlock (VStr ''ingredients'')
                       (VStr (''Key ingredients for '' @ product_name @ '' are not provided.''))
                       (VDict (length h)),
                     h @ [[(''ingredient_count'', VInt 0), (''detailed'', detailed)]])"
    using assms
    by (simp add: IngredientsBlock_generate_def get_dict [of h a "''name''"]
        get_dict [of h a "''concentration''"] len_def mk_block_def alloc_def)
next
  assume "\<not> truthy h (case map_of (deref h a) ''side_effects'' of None \<Rightarrow> VNone | Some v \<Rightarrow> v)"
  then show "SafetyBlock_generate rt h (VDict a)
              = Inr (ContentBlock (VStr ''safety'')
                       (VStr (''Side effects information for '' @ product_name @ '' is not provided.''))
                       (VDict (length h)),
                     h @ [[(''has_warnings'', VBool False)]])"
    using assms
    by (simp add: SafetyBlock_generate_def get_dict mk_block_def alloc_def)
next
  assume "map_of (deref h a) ''skin_types'' \<in> {None, Some (VList [])}"
  then have "get h (VDict a) ''skin_types'' (VList []) = Inr (VList [])"
    by (auto simp: get_dict)
  then show "SkinTypeBlock_generate rt h (VDict a)
              = Inr (ContentBlock (VStr ''skin_type'')
                       (VStr (''Suitable skin types for '' @ product_name @ '' are not specified.''))
                       (VDict (length h)),
                     h @ [[(''skin_type_count'', VInt 0)]])"
    using assms
    by (simp add: SkinTypeBlock_generate_def get_dict [of h a "''name''"] len_def mk_block_def alloc_def)
next
  assume "\<not> truthy h (case map_of (deref h a) ''price'' of None \<Rightarrow> VNone | Some v \<Rightarrow> v)"
  then show "PriceBlock_generate rt h (VDict a)
              = Inr (ContentBlock (VStr ''price'')
                       (VStr (''Price for '' @ product_name @ '' is not provided.''))
                       (VDict (length h)),
                     h @ [[(''has_price'', VBool False)]])"
    using assms
    by (simp add: PriceBlock_generate_def get_dict mk_block_def alloc_def)
qed

theorem missing_attribute_block_witness:
  "BenefitsBlock_generate py0 bare_product (VDict 0)
     = Inr (ContentBlock (VStr ''benefits'') (VStr ''Benefits for GlowBoost are not provided.'') (VDict 1),
            bare_product @ [[(''benefit_count'', VInt 0)]])
   \<and> UsageBlock_generate py0 bare_product (VDict 0)
     = Inr (ContentBlock (VStr ''usage'')
              (VStr ''Usage instructions for GlowBoost are not provided.'') (VDict 1),
            bare_product @ [[(''has_instructions'', VBool False)]])
   \<and> IngredientsBlock_generate py0 bare_product (VDict 0) (VBool False)
     = Inr (ContentBlock (VStr ''ingredients'')
              (VStr ''Key ingredients for GlowBoost are not provided.'') (VDict 1),
            bare_product @ [[(''ingredient_count'', VInt 0), (''detailed'', VBool False)]])
   \<and> SafetyBlock_generate py0 bare_product (VDict 0)
     = Inr (ContentBlock (VStr ''safety'')
              (VStr ''Side effects information for GlowBoost is not provided.'') (VDict 1),
            bare_product @ [[(''has_warnings'', VBool False)]])
   \<and> SkinTypeBlock_generate py0 bare_product (VDict 0)
     = Inr (ContentBlock (VStr ''skin_type'')
              (VStr ''Suitable skin types for GlowBoost are not specified.'') (VDict 1),
            bare_product @ [[(''skin_type_count'', VInt 0)]])
   \<and> PriceBlock_generate py0 bare_product (VDict 0)
     = Inr (ContentBlock (VStr ''price'') (VStr ''Price for GlowBoost is not provided.'') (VDict 1),
            bare_product @ [[(''has_price'', VBool False)]])"
proof -
  have n: "''GlowBoost'' = py_str py0 bare_product
             (case map_of (deref bare_product 0) ''name'' of
                None \<Rightarrow> VStr ''this product'' | Some n \<Rightarrow> n)"
    by (simp add: deref_def bare_product_def)
  have l: "map_of (deref bare_product 0) ''benefits'' = Some (VList [])"
    "map_of (deref bare_product 0) ''key_ingredients'' = Some (VList [])"
    "map_of (deref bare_product 0) ''skin_types'' = Some (VList [])"
    by (simp_all add: deref_def bare_product_def)
  have o: "\<not> truthy bare_product (case map_of (deref bare_product 0) ''usage_instructions'' of
                                      None \<Rightarrow> VNone | Some v \<Rightarrow> v)"
    "\<not> truthy bare_product (case map_of (deref bare_product 0) ''side_effects'' of
                                      None \<Rightarrow> VNone | Some v \<Rightarrow> v)"
    "\<not> truthy bare_product (case map_of (deref bare_product 0) ''price'' of
                                      None \<Rightarrow> VNone | Some v \<Rightarrow> v)"
    by (simp_all add: deref_def bare_product_def)
  have len: "length bare_product = 1" by (simp add: bare_product_def)
  from missing_attribute_block [OF n, of "VBool False"] l o len show ?thesis by simp
qed

subsection \<open>Question answering\<close>









subsection \<open>The caller's mapping\<close>

lemma and_then_InrD: "and_then m f = Inr y \<Longrightarrow> \<exists>x. f x = Inr y"
  by (cases m) auto

lemma mk_block_grows: "mk_block h ty c md = Inr (b, h1) \<Longrightarrow> h1 = h @ [md]"
  by (auto simp: mk_block_def alloc_def)

lemma BenefitsBlock_grows: "BenefitsBlock_generate rt h pd = Inr (b, h1) \<Longrightarrow> \<exists>md. h1 = h @ [md]"
  unfolding BenefitsBlock_generate_def by (blast dest!: and_then_InrD mk_block_grows)

lemma UsageBlock_grows: "UsageBlock_generate rt h pd = Inr (b, h1) \<Longrightarrow> \<exists>md. h1 = h @ [md]"
  unfolding UsageBlock_generate_def by (blast dest!: and_then_InrD mk_block_grows)

lemma IngredientsBlock_grows:
  "IngredientsBlock_generate rt h pd dt = Inr (b, h1) \<Longrightarrow> \<exists>md. h1 = h @ [md]"
  unfolding IngredientsBlock_generate_def by (blast dest!: and_then_InrD mk_block_grows)

lemma SafetyBlock_grows: "SafetyBlock_generate rt h pd = Inr (b, h1) \<Longrightarrow> \<exists>md. h1 = h @ [md]"
  unfolding SafetyBlock_generate_def by (blast dest!: and_then_InrD mk_block_grows)

lemma SkinTypeBlock_grows: "SkinTypeBlock_generate rt h pd = Inr (b, h1) \<Longrightarrow> \<exists>md. h1 = h @ [md]"
  unfolding SkinTypeBlock_generate_def by (blast dest!: and_then_InrD mk_block_grows)

lemma PriceBlock_grows: "PriceBlock_generate rt h pd = Inr (b, h1) \<Longrightarrow> \<exists>md. h1 = h @ [md]"
  unfolding PriceBlock_generate_def by (blast dest!: and_then_InrD mk_block_grows)

lemma compare_sets_grows:
  "compare_sets rt h pa pb at l1 l2 l3 fb ty ck = Inr (b, h1) \<Longrightarrow> \<exists>md. h1 = h @ [md]"
  unfolding compare_sets_def Let_def by (blast dest!: and_then_InrD mk_block_grows)

lemma compare_prices_grows: "compare_prices rt h pa pb = Inr (b, h1) \<Longrightarrow> \<exists>md. h1 = h @ [md]"
  unfolding compare_prices_def by (blast dest!: and_then_InrD mk_block_grows)

lemma generate_answer_grows: "generate_answer rt h q pd = Inr (b, h1) \<Longrightarrow> \<exists>md. h1 = h @ [md]"
  unfolding generate_answer_def
  by (cases q) (auto dest!: and_then_InrD mk_block_grows)

lemma call1_grows: "call1 rt h g pd = Inr (b, h1) \<Longrightarrow> \<exists>md. h1 = h @ [md]"
  by (cases g)
     (auto simp: call1_def
           dest: BenefitsBlock_grows UsageBlock_grows IngredientsBlock_grows SafetyBlock_grows
                 SkinTypeBlock_grows PriceBlock_grows)

lemma call2_grows: "call2 rt h g x y = Inr (b, h1) \<Longrightarrow> \<exists>md. h1 = h @ [md]"
  by (cases g)
     (auto simp: call2_def compare_ingredients_def compare_benefits_def
           dest: IngredientsBlock_grows compare_sets_grows compare_prices_grows
                 generate_answer_grows)

lemma enriches_refl: "enriches e h h"
  by (auto simp: enriches_def)

lemma enriches_trans:
  assumes "e < length h" "enriches e h h1" "enriches e h1 h2"
  shows "enriches e h h2"
proof -
  from assms(2) have l1: "length h \<le> length h1"
    and o1: "\<And>a. a < length h \<Longrightarrow> a \<noteq> e \<Longrightarrow> deref h1 a = deref h a"
    and v1: "snd ` set (deref h1 e) \<subseteq> snd ` set (deref h e) \<union> range VBlock"
    by (simp_all add: enriches_def)
  from assms(3) have l2: "length h1 \<le> length h2"
    and o2: "\<And>a. a < length h1 \<Longrightarrow> a \<noteq> e \<Longrightarrow> deref h2 a = deref h1 a"
    and v2: "snd ` set (deref h2 e) \<subseteq> snd ` set (deref h1 e) \<union> range VBlock"
    by (simp_all add: enriches_def)
  have "deref h2 a = deref h a" if "a < length h" "a \<noteq> e" for a
    using that o1 [of a] o2 [of a] l1 by simp
  moreover have "snd ` set (deref h2 e) \<subseteq> snd ` set (deref h e) \<union> range VBlock"
    using v1 v2 by blast
  ultimately show ?thesis using l1 l2 by (simp add: enriches_def)
qed

lemma update_values: "snd ` set (AList.update k v al) \<subseteq> insert v (snd ` set al)"
  by (induction al) auto

lemma put_block_enriches:
  assumes "e < length h" "\<And>b h1. r = Inr (b, h1) \<Longrightarrow> \<exists>md. h1 = h @ [md]"
  shows "enriches e h (put_block h e dep r)"
proof (cases r)
  case (Inl err)
  then show ?thesis by (simp add: put_block_def enriches_refl)
next
  case (Inr p)
  obtain b h1 where p: "p = (b, h1)" by (cases p)
  with Inr assms(2) obtain md where h1: "h1 = h @ [md]" by blast
  have old: "deref h1 a = deref h a" if "a < length h" for a
    using that h1 by (simp add: deref_def nth_append)
  have "snd ` set (AList.update dep (VBlock b) (deref h1 e)) \<subseteq> snd ` set (deref h e) \<union> range VBlock"
    using update_values [of dep "VBlock b" "deref h1 e"] old [OF assms(1)] by auto
  then show ?thesis
    using Inr p h1 assms(1) old
    by (auto simp: put_block_def enriches_def length_store deref_store)
qed

lemma put_call1_enriches:
  assumes "e < length h"
  shows "enriches e h (put_block h e dep (call1 rt h g x))"
  using assms
proof (rule put_block_enriches)
  fix b h1
  assume "call1 rt h g x = Inr (b, h1)"
  then show "\<exists>md. h1 = h @ [md]" by (rule call1_grows)
qed

lemma put_call2_enriches:
  assumes "e < length h"
  shows "enriches e h (put_block h e dep (call2 rt h g x y))"
  using assms
proof (rule put_block_enriches)
  fix b h1
  assume "call2 rt h g x y = Inr (b, h1)"
  then show "\<exists>md. h1 = h @ [md]" by (rule call2_grows)
qed

lemma generate_dep_enriches:
  assumes "e < length h"
  shows "enriches e h (generate_dep rt eng d e dep h)"
  unfolding generate_dep_def Let_def
  using assms by (simp add: enriches_refl put_call1_enriches put_call2_enriches split: option.splits)

lemma fold_generate_dep_enriches:
  assumes "e < length h"
  shows "enriches e h (fold (generate_dep rt eng d e) deps h)"
  using assms
proof (induction deps arbitrary: h)
  case Nil
  show ?case by (simp add: enriches_refl)
next
  case (Cons dep deps)
  let ?h1 = "generate_dep rt eng d e dep h"
  have 1: "enriches e h ?h1" by (rule generate_dep_enriches [OF Cons.prems])
  then have "e < length ?h1" using Cons.prems by (simp add: enriches_def)
  from Cons.IH [OF this] have "enriches e ?h1 (fold (generate_dep rt eng d e) deps ?h1)" .
  with 1 Cons.prems show ?case by (auto intro: enriches_trans)
qed

text \<open>Dependency resolution works on a copy: the enriched mapping is a new object, and
  every mapping of the store, the caller's among them, is as before.\<close>

lemma generate_content_blocks_copy:
  assumes "generate_content_blocks rt eng h t d = (e, h1)"
  shows "e = length h \<and> length h < length h1 \<and> (\<forall>a < length h. deref h1 a = deref h a)
         \<and> snd ` set (deref h1 e) \<subseteq> snd ` set (deref h d) \<union> range VBlock"
proof -
  let ?h0 = "h @ [deref h d]"
  have e: "e = length h" using assms
    by (auto simp: generate_content_blocks_def alloc_def split: option.splits)
  have "enriches e ?h0 h1"
  proof (cases "dependencies t")
    case None
    with assms show ?thesis by (auto simp: generate_content_blocks_def alloc_def enriches_refl)
  next
    case (Some deps)
    with assms have "h1 = fold (generate_dep rt eng d e) deps ?h0"
      by (auto simp: generate_content_blocks_def alloc_def)
    then show ?thesis using fold_generate_dep_enriches [of e ?h0] e by simp
  qed
  moreover have "deref ?h0 a = deref h a" if "a < length h" for a
    using that by (simp add: deref_def nth_append)
  moreover have "deref ?h0 e = deref h d" using e by (simp add: deref_def)
  ultimately show ?thesis using e by (auto simp: enriches_def)
qed

lemma raw_value_cases:
  "raw_value h f e = default_value f \<or> raw_value h f e \<in> snd ` set (deref h e)"
  by (auto simp: raw_value_def split: option.splits dest!: map_of_SomeD intro: rev_image_eqI)

lemma raw_value_not_self:
  assumes "VDict d \<notin> snd ` set (deref h e)" "default_value f \<noteq> VDict d"
  shows "raw_value h f e \<noteq> VDict d"
proof
  assume eq: "raw_value h f e = VDict d"
  from raw_value_cases [of h f e] show False
  proof
    assume "raw_value h f e = default_value f"
    with eq assms(2) show False by simp
  next
    assume "raw_value h f e \<in> snd ` set (deref h e)"
    with eq assms(1) show False by simp
  qed
qed

lemma render_fields_keeps:
  assumes "render_fields rt h e fs acc = (res, h')"
    and "d < length h" "e < length h"
    and "VDict d \<notin> snd ` set (deref h e)"
    and "\<forall>f \<in> set fs. default_value f \<noteq> VDict d"
  shows "deref h' d = deref h d"
  using assms
proof (induction fs arbitrary: h acc)
  case Nil
  then show ?case by simp
next
  case (Cons f fs)
  obtain r h1 where pf: "process_field rt h f e = (r, h1)" by (cases "process_field rt h f e")
  have "default_value f \<noteq> VDict d" using Cons.prems(5) by simp
  with Cons.prems(4) have raw: "raw_value h f e \<noteq> VDict d"
    by (rule raw_value_not_self)
  from process_field_frame [OF pf] Cons.prems(2,3) raw
  have len: "d < length h1" "e < length h1" and same: "deref h1 d = deref h d"
    and sub: "set (deref h1 e) \<subseteq> set (deref h e)"
    by (auto simp: frame_def)
  show ?case
  proof (cases r)
    case (Inl err)
    with Cons.prems(1) pf same show ?thesis by simp
  next
    case (Inr v)
    let ?acc = "if v \<noteq> VNone \<or> \<not> required f then AList.update (field_name f) v acc else acc"
    from Cons.prems(1) pf Inr have rf: "render_fields rt h1 e fs ?acc = (res, h')" by simp
    have "VDict d \<notin> snd ` set (deref h1 e)" using sub Cons.prems(4) by auto
    from Cons.IH [OF rf len this] Cons.prems(5) same show ?thesis by simp
  qed
qed

lemma render_keeps:
  assumes "render rt h t e = (res, h')"
    and "d < length h" "e < length h"
    and "VDict d \<notin> snd ` set (deref h e)"
    and "\<forall>f \<in> set (template_fields t). default_value f \<noteq> VDict d"
  shows "deref h' d = deref h d"
proof -
  obtain r h1 where rf: "render_fields rt h e (template_fields t) [] = (r, h1)"
    by (cases "render_fields rt h e (template_fields t) []")
  with assms(1) have "h' = h1" by (auto simp: render_def split: sum.splits)
  with render_fields_keeps [OF rf assms(2-5)] show ?thesis by simp
qed

text \<open>
  The caller's mapping keeps its keys and values through a render call, whatever the
  outcome, as long as it is not itself the raw value of a field: dependency resolution
  writes the generated blocks to a copy, and coercion changes a mapping in place only when
  that mapping is the raw value of a block-typed field.
\<close>

lemma caller_mapping_unchanged:
  assumes run: "render_template rt eng h tname d fmt = (res, h')"
    and d: "d < length h"
    and self: "VDict d \<notin> snd ` set (deref h d)"
    and dflt: "\<forall>t. map_of (templates eng) tname = Some t \<longrightarrow>
                 (\<forall>f \<in> set (template_fields t). default_value f \<noteq> VDict d)"
  shows "deref h' d = deref h d"
proof (cases "map_of (templates eng) tname")
  case None
  with run show ?thesis by (simp add: render_template_def)
next
  case (Some t)
  let ?missing = "case dependencies t of None \<Rightarrow> [] | Some deps \<Rightarrow> missing_deps eng h deps d"
  show ?thesis
  proof (cases "?missing = []")
    case False
    with run Some show ?thesis by (simp add: render_template_def)
  next
    case True
    obtain e h1 where gen: "generate_content_blocks rt eng h t d = (e, h1)"
      by (cases "generate_content_blocks rt eng h t d")
    note copy = generate_content_blocks_copy [OF gen]
    from copy d have same: "deref h1 d = deref h d" and len: "d < length h1" "e < length h1"
      by auto
    show ?thesis
    proof (cases "map_of (renderers eng) fmt")
      case None
      with run Some True gen same show ?thesis by (simp add: render_template_def)
    next
      case (Some r)
      then have r: "r = JSONTemplateRenderer" by (cases r)
      from run \<open>map_of (templates eng) tname = Some t\<close> True gen Some r
      have rn: "render rt h1 t e = (res, h')" by (simp add: render_template_def)
      have "VDict d \<notin> snd ` set (deref h1 e)" using copy self by auto
      moreover have "\<forall>f \<in> set (template_fields t). default_value f \<noteq> VDict d"
        using dflt \<open>map_of (templates eng) tname = Some t\<close> by simp
      ultimately show ?thesis using render_keeps [OF rn len] same by simp
    qed
  qed
qed

subsection \<open>Repeated rendering\<close>

text \<open>
  C9. Rendering twice is not always the same on the code. The context holds the subject
  \<^verbatim>\<open>product_a_full = {"metadata": "draft"}\<close> next to \<^verbatim>\<open>product_a\<close> and \<^verbatim>\<open>product_b\<close>, and
  the template shows \<^verbatim>\<open>product_a_full\<close> as a block without metadata. The first call
  compares \<^verbatim>\<open>product_a_full\<close> with \<^verbatim>\<open>product_b\<close>, which fails for want of a name, and
  coercion then removes \<^verbatim>\<open>metadata\<close> from the caller's own \<^verbatim>\<open>product_a_full\<close>. The second
  call, on the same context (its keys and values are the same objects), finds
  \<^verbatim>\<open>product_a_full\<close> empty, compares \<^verbatim>\<open>product_a\<close> instead, and returns a document with
  one more field.
\<close>

theorem repeated_render_differs:
  "fst (render_template py0 engine1 compare_store ''compare_page'' 0 ''json'')
     = Inr \<lparr>template_name = ''compare_page'', doc_metadata = [],
             doc_content = [(''product_a_full'', VDict 1)]\<rparr>
   \<and> deref (snd (render_template py0 engine1 compare_store ''compare_page'' 0 ''json'')) 0
     = deref compare_store 0
   \<and> fst (render_template py0 engine1
             (snd (render_template py0 engine1 compare_store ''compare_page'' 0 ''json''))
             ''compare_page'' 0 ''json'')
     = Inr \<lparr>template_name = ''compare_page'', doc_metadata = [],
             doc_content = [(''product_a_full'', VDict 1), (''comparison_prices'', VDict 7)]\<rparr>"
  by code_simp

subsection \<open>A context that holds itself\<close>

text \<open>
  C10. The caller's mapping is changed at the top level when it is itself the raw value of
  a block-typed field rendered without metadata: the context \<^verbatim>\<open>data\<close> with
  \<^verbatim>\<open>data["self"] = data\<close> has lost its key \<^verbatim>\<open>metadata\<close> after the call.
\<close>

theorem self_context_mutated:
  "render_template py0 engine1 self_store ''self_page'' 0 ''json''
     = (Inr \<lparr>template_name = ''self_page'', doc_metadata = [],
              doc_content = [(''self'', VDict 0)]\<rparr>,
        [[(''self'', VDict 0)], [(''metadata'', VStr ''draft''), (''self'', VDict 0)]])
   \<and> has_key (deref self_store 0) ''metadata''
   \<and> \<not> has_key (deref (snd (render_template py0 engine1 self_store ''self_page'' 0 ''json'')) 0)
           ''metadata''"
  by code_simp

end
